theory Spec2Isabelle
  imports Main "HOL-Library.Sublist"
begin

section \<open>LinkParser: \<open>urlUtils.js\<close>\<close>

text \<open>
  JavaScript strings are modelled as \<open>string\<close>. The class \<open>\w\<close> of a regular
  expression without the unicode flag is exactly \<open>[A-Za-z0-9_]\<close>.
\<close>

definition isWordChar :: "char \<Rightarrow> bool" where
  "isWordChar c =
     (let n = (of_char c :: nat)
      in (97 \<le> n \<and> n \<le> 122) \<or> (65 \<le> n \<and> n \<le> 90) \<or> (48 \<le> n \<and> n \<le> 57) \<or> n = 95)"

text \<open>
  One attempt of the pattern \<^verbatim>\<open>/\/s\/(\w+)/\<close> at the start of the given suffix: the
  literal \<^verbatim>\<open>/s/\<close>, then the greedy, non-empty run of word characters (capture 1).
\<close>

definition matchIdAt :: "string \<Rightarrow> string option" where
  "matchIdAt s =
     (if take 3 s = ''/s/''
      then (let w = takeWhile isWordChar (drop 3 s) in if w = [] then None else Some w)
      else None)"

text \<open>\<^verbatim>\<open>url.match(pattern)\<close> without the \<open>g\<close> flag: the leftmost start position that matches.\<close>

fun searchId :: "string \<Rightarrow> string option" where
  "searchId [] = None"
| "searchId (c # cs) =
     (case matchIdAt (c # cs) of Some w \<Rightarrow> Some w | None \<Rightarrow> searchId cs)"

text \<open>
  \<^verbatim>\<open>getIdFromUrl(url)\<close>: capture 1 of the match, and the empty string \<^verbatim>\<open>''\<close> when
  there is no match.
\<close>

definition getIdFromUrl :: "string \<Rightarrow> string" where
  "getIdFromUrl url = (case searchId url of Some w \<Rightarrow> w | None \<Rightarrow> [])"

definition sharePrefix :: string where
  "sharePrefix = ''https://pan.quark.cn/s/''"

text \<open>
  \<^verbatim>\<open>isValidQuarkUrl(url)\<close>: \<^verbatim>\<open>/^https:\/\/pan\.quark\.cn\/s\/\w+/.test(url)\<close>, anchored at
  the start only.
\<close>

definition isValidQuarkUrl :: "string \<Rightarrow> bool" where
  "isValidQuarkUrl url =
     (take (length sharePrefix) url = sharePrefix
      \<and> takeWhile isWordChar (drop (length sharePrefix) url) \<noteq> [])"


text \<open>
  The reading of the specification, to compare \<open>getIdFromUrl\<close> with: the path segment
  that follows \<^verbatim>\<open>/s/\<close> in a URL of the canonical shape, which ends before the next
  \<^verbatim>\<open>/\<close>, \<^verbatim>\<open>?\<close> or \<^verbatim>\<open>#\<close> or at the end of the string.
\<close>

definition specPathSegment :: "string \<Rightarrow> string" where
  "specPathSegment url =
     takeWhile (\<lambda>c. c \<noteq> CHR ''/'' \<and> c \<noteq> CHR ''?'' \<and> c \<noteq> CHR ''#'')
       (drop (length sharePrefix) url)"

section \<open>Thrown values\<close>

text \<open>
  A thrown JavaScript \<^verbatim>\<open>Error\<close> (or \<^verbatim>\<open>DOMException\<close>) with its \<^verbatim>\<open>name\<close> and
  \<^verbatim>\<open>message\<close>. Strings that the source writes in Chinese are kept as their UTF-8
  bytes.
\<close>

datatype exn = Exn (exnName: string) (exnMessage: string)

section \<open>TransferRecordStore and DuplicateIndex: \<open>IndexedDBService.js\<close>\<close>

definition msgFileExistsFailed :: string where
  \<comment> \<open>UTF-8 bytes of the source literal; in English: checking whether the file exists failed\<close>
  "msgFileExistsFailed =
     [CHR 0xE6, CHR 0xA3, CHR 0x80, CHR 0xE6, CHR 0x9F, CHR 0xA5, CHR 0xE6, CHR 0x96,
     CHR 0x87, CHR 0xE4, CHR 0xBB, CHR 0xB6, CHR 0xE5, CHR 0xAD, CHR 0x98, CHR 0xE5,
     CHR 0x9C, CHR 0xA8, CHR 0xE6, CHR 0x80, CHR 0xA7, CHR 0xE5, CHR 0xA4, CHR 0xB1,
     CHR 0xE8, CHR 0xB4, CHR 0xA5]"

definition msgCheckDuplicateFailed :: string where
  \<comment> \<open>UTF-8 bytes of the source literal; in English: checking for a duplicate file failed: (with a trailing space)\<close>
  "msgCheckDuplicateFailed =
     [CHR 0xE6, CHR 0xA3, CHR 0x80, CHR 0xE6, CHR 0x9F, CHR 0xA5, CHR 0xE9, CHR 0x87,
     CHR 0x8D, CHR 0xE5, CHR 0xA4, CHR 0x8D, CHR 0xE6, CHR 0x96, CHR 0x87, CHR 0xE4,
     CHR 0xBB, CHR 0xB6, CHR 0xE5, CHR 0xA4, CHR 0xB1, CHR 0xE8, CHR 0xB4,
     CHR 0xA5] @ '': ''"

text \<open>
  A stored record, with the four fields the lookups read. A field is \<open>None\<close> when the
  record does not have it (\<^verbatim>\<open>insertFile\<close> writes neither \<^verbatim>\<open>shareUrl\<close> nor
  \<^verbatim>\<open>originalUrl\<close>) or holds a value that is not a string.
\<close>

record file_record =
  rec_fileName :: "string option"
  rec_shareLink :: "string option"
  rec_shareUrl :: "string option"
  rec_originalUrl :: "string option"

text \<open>The object store \<^verbatim>\<open>files\<close>: the names of its indexes and its records.\<close>

record idb =
  indexNames :: "string list"
  files :: "file_record list"

text \<open>
  The IndexedDB calls a lookup makes, and how each may go wrong: a call may throw
  (\<open>throws\<close>: \<^verbatim>\<open>this.db\<close> is null or closed, the transaction is inactive), and a
  request may fire \<^verbatim>\<open>onerror\<close> instead of \<^verbatim>\<open>onsuccess\<close> (\<open>fails\<close>).
\<close>

datatype idb_op = OpTransaction | OpIndex string | OpGet string | OpGetAll

record idb_faults =
  throws :: "idb_op \<Rightarrow> exn option"
  fails :: "idb_op \<Rightarrow> bool"

definition keyField :: "string \<Rightarrow> file_record \<Rightarrow> string option" where
  "keyField indexName r =
     (if indexName = ''fileName'' then rec_fileName r
      else if indexName = ''shareLink'' then rec_shareLink r
      else if indexName = ''shareUrl'' then rec_shareUrl r
      else if indexName = ''originalUrl'' then rec_originalUrl r
      else None)"

text \<open>\<^verbatim>\<open>!!request.result\<close> of \<^verbatim>\<open>index.get(key)\<close>: some record has the key in that index.\<close>

definition indexGet :: "idb \<Rightarrow> string \<Rightarrow> string \<Rightarrow> bool" where
  "indexGet db indexName key = list_ex (\<lambda>r. keyField indexName r = Some key) (files db)"

text \<open>\<^verbatim>\<open>store.index(name)\<close>: throws \<^verbatim>\<open>NotFoundError\<close> when the store has no such index.\<close>

definition openIndex :: "idb \<Rightarrow> idb_faults \<Rightarrow> string \<Rightarrow> exn option" where
  "openIndex db f indexName =
     (if indexName \<in> set (indexNames db) then throws f (OpIndex indexName)
      else Some (Exn ''NotFoundError'' ''The specified index was not found.''))"

text \<open>
  \<^verbatim>\<open>fileExists(fileName)\<close>: everything runs in the executor of the promise, so a throw
  rejects it, and so does \<^verbatim>\<open>request.onerror\<close>.
\<close>

definition fileExists :: "idb \<Rightarrow> idb_faults \<Rightarrow> string \<Rightarrow> exn + bool" where
  "fileExists db f fileName =
     (case throws f OpTransaction of
        Some e \<Rightarrow> Inl e
      | None \<Rightarrow>
          (case openIndex db f ''fileName'' of
             Some e \<Rightarrow> Inl e
           | None \<Rightarrow>
               (case throws f (OpGet ''fileName'') of
                  Some e \<Rightarrow> Inl e
                | None \<Rightarrow>
                    if fails f (OpGet ''fileName'')
                    then Inl (Exn ''Error'' msgFileExistsFailed)
                    else Inr (indexGet db ''fileName'' fileName))))"

text \<open>
  The inner \<^verbatim>\<open>checkWithIndex(indexName)\<close> of \<^verbatim>\<open>fileExistsByShareLink\<close>: an async
  function, so a throw rejects its promise; a request error resolves to false.
\<close>

definition checkWithIndex :: "idb \<Rightarrow> idb_faults \<Rightarrow> string \<Rightarrow> string \<Rightarrow> exn + bool" where
  "checkWithIndex db f shareLink indexName =
     (if indexName \<in> set (indexNames db)
      then (case throws f (OpIndex indexName) of
              Some e \<Rightarrow> Inl e
            | None \<Rightarrow>
                (case throws f (OpGet indexName) of
                   Some e \<Rightarrow> Inl e
                 | None \<Rightarrow>
                     if fails f (OpGet indexName) then Inr False
                     else Inr (indexGet db indexName shareLink)))
      else Inr False)"

text \<open>The scan over \<^verbatim>\<open>store.getAll()\<close> that follows when no index found the link.\<close>

definition scanAll :: "idb \<Rightarrow> string \<Rightarrow> bool" where
  "scanAll db shareLink =
     list_ex (\<lambda>file. rec_shareLink file = Some shareLink
                    \<or> rec_shareUrl file = Some shareLink
                    \<or> rec_originalUrl file = Some shareLink) (files db)"

text \<open>
  \<^verbatim>\<open>fileExistsByShareLink(shareLink)\<close>: the outer \<^verbatim>\<open>catch\<close>, the \<^verbatim>\<open>.catch\<close> after
  \<^verbatim>\<open>Promise.all(...).then(...)\<close> and \<^verbatim>\<open>getAllRequest.onerror\<close> all resolve to false.
\<close>

definition fileExistsByShareLink :: "idb \<Rightarrow> idb_faults \<Rightarrow> string \<Rightarrow> exn + bool" where
  "fileExistsByShareLink db f shareLink =
     (case throws f OpTransaction of
        Some e \<Rightarrow> Inr False
      | None \<Rightarrow>
          (case (checkWithIndex db f shareLink ''shareLink'',
                 checkWithIndex db f shareLink ''shareUrl'',
                 checkWithIndex db f shareLink ''originalUrl'') of
             (Inr a, Inr b, Inr c) \<Rightarrow>
               if a \<or> b \<or> c then Inr True
               else (case throws f OpGetAll of
                       Some e \<Rightarrow> Inr False
                     | None \<Rightarrow> if fails f OpGetAll then Inr False else Inr (scanAll db shareLink))
           | _ \<Rightarrow> Inr False))"

datatype duplicate_type = DupBoth | DupName | DupLink | DupNone

record verdict =
  exists :: bool
  duplicateType :: duplicate_type
  nameExists :: bool
  linkExists :: bool

text \<open>
  \<^verbatim>\<open>checkDuplicate(fileName, shareLink)\<close>: both lookups are started, each with the
  faults of its own transaction, and joined by \<^verbatim>\<open>Promise.all\<close>; the \<^verbatim>\<open>catch\<close>
  rethrows a rejection under a new message.
\<close>

definition checkDuplicate ::
  "idb \<Rightarrow> idb_faults \<Rightarrow> idb_faults \<Rightarrow> string \<Rightarrow> string \<Rightarrow> exn + verdict" where
  "checkDuplicate db fName fLink fileName shareLink =
     (case (fileExists db fName fileName, fileExistsByShareLink db fLink shareLink) of
        (Inr n, Inr l) \<Rightarrow>
          Inr \<lparr>exists = n \<or> l,
               duplicateType = (if n then (if l then DupBoth else DupName)
                                else (if l then DupLink else DupNone)),
               nameExists = n,
               linkExists = l\<rparr>
      | (Inl e, _) \<Rightarrow> Inl (Exn ''Error'' (msgCheckDuplicateFailed @ exnMessage e))
      | (Inr n, Inl e) \<Rightarrow> Inl (Exn ''Error'' (msgCheckDuplicateFailed @ exnMessage e)))"

definition noFaults :: idb_faults where
  "noFaults = \<lparr>throws = (\<lambda>_. None), fails = (\<lambda>_. False)\<rparr>"

text \<open>The indexes that \<^verbatim>\<open>init()\<close> creates for version 2 of the database.\<close>

definition v2Indexes :: "string list" where
  "v2Indexes = [''fileName'', ''fileType'', ''createTime'', ''shareLink'', ''shareUrl'',
                ''originalUrl'']"

section \<open>JSON values and the JavaScript operations on them\<close>

text \<open>
  The value that \<^verbatim>\<open>response.json()\<close> yields. Numbers are integers here (the
  identifiers, counts and status codes of the upstream API), and a string is the
  sequence of its UTF-8 bytes, so that \<^verbatim>\<open>length\<close> and \<^verbatim>\<open>[0]\<close> of a string are those
  of JavaScript on ASCII text. A JavaScript value that may also be \<^verbatim>\<open>undefined\<close> is a
  \<open>json option\<close>, with \<open>None\<close> for \<^verbatim>\<open>undefined\<close>.
\<close>

datatype json =
    JNull
  | JBool bool
  | JNum int
  | JStr string
  | JArr "json list"
  | JObj "(string \<times> json) list"

type_synonym jsval = "json option"

text \<open>Truthiness, as \<^verbatim>\<open>if (x)\<close>, \<^verbatim>\<open>!x\<close> and \<^verbatim>\<open>x || y\<close> test it.\<close>

fun truthy :: "jsval \<Rightarrow> bool" where
  "truthy None = False"
| "truthy (Some JNull) = False"
| "truthy (Some (JBool b)) = b"
| "truthy (Some (JNum n)) = (n \<noteq> 0)"
| "truthy (Some (JStr s)) = (s \<noteq> [])"
| "truthy (Some (JArr xs)) = True"
| "truthy (Some (JObj kvs)) = True"

text \<open>
  A named property of a value that is neither null nor undefined. \<^verbatim>\<open>JSON.parse\<close>
  keeps the last of several equal keys; arrays and strings have \<^verbatim>\<open>length\<close>. The
  property names that the source reads are fixed and none of them is numeric or
  inherited, except \<^verbatim>\<open>length\<close>.
\<close>

fun getProp :: "json \<Rightarrow> string \<Rightarrow> jsval" where
  "getProp (JObj kvs) k = map_of (rev kvs) k"
| "getProp (JArr xs) k = (if k = ''length'' then Some (JNum (int (length xs))) else None)"
| "getProp (JStr s) k = (if k = ''length'' then Some (JNum (int (length s))) else None)"
| "getProp (JNum n) k = None"
| "getProp (JBool b) k = None"
| "getProp JNull k = None"

text \<open>The element \<^verbatim>\<open>x[0]\<close> of a value that is neither null nor undefined.\<close>

fun index0 :: "json \<Rightarrow> jsval" where
  "index0 (JArr xs) = (case xs of [] \<Rightarrow> None | x # _ \<Rightarrow> Some x)"
| "index0 (JStr s) = (case s of [] \<Rightarrow> None | c # _ \<Rightarrow> Some (JStr [c]))"
| "index0 (JObj kvs) = map_of (rev kvs) ''0''"
| "index0 (JNum n) = None"
| "index0 (JBool b) = None"
| "index0 JNull = None"

definition typeError :: "string \<Rightarrow> string \<Rightarrow> exn" where
  "typeError what k =
     Exn ''TypeError'' (''Cannot read properties of '' @ what @ '' (reading ''
                        @ [CHR 0x27] @ k @ [CHR 0x27] @ '')'')"

text \<open>\<^verbatim>\<open>v?.k\<close>: undefined on null and undefined.\<close>

definition optProp :: "jsval \<Rightarrow> string \<Rightarrow> jsval" where
  "optProp v k = (case v of None \<Rightarrow> None | Some JNull \<Rightarrow> None | Some j \<Rightarrow> getProp j k)"

text \<open>\<^verbatim>\<open>v.k\<close>: a \<^verbatim>\<open>TypeError\<close> on null and undefined.\<close>

definition strictProp :: "jsval \<Rightarrow> string \<Rightarrow> exn + jsval" where
  "strictProp v k =
     (case v of
        None \<Rightarrow> Inl (typeError ''undefined'' k)
      | Some JNull \<Rightarrow> Inl (typeError ''null'' k)
      | Some j \<Rightarrow> Inr (getProp j k))"

text \<open>\<^verbatim>\<open>v[0]\<close>: a \<^verbatim>\<open>TypeError\<close> on null and undefined.\<close>

definition elem0 :: "jsval \<Rightarrow> exn + jsval" where
  "elem0 v =
     (case v of
        None \<Rightarrow> Inl (typeError ''undefined'' ''0'')
      | Some JNull \<Rightarrow> Inl (typeError ''null'' ''0'')
      | Some j \<Rightarrow> Inr (index0 j))"

text \<open>The chains \<^verbatim>\<open>v?.a?.b\<close> and \<^verbatim>\<open>v.a.b\<close>.\<close>

fun optProps :: "jsval \<Rightarrow> string list \<Rightarrow> jsval" where
  "optProps v [] = v"
| "optProps v (k # ks) = optProps (optProp v k) ks"

fun props :: "jsval \<Rightarrow> string list \<Rightarrow> exn + jsval" where
  "props v [] = Inr v"
| "props v (k # ks) = (case strictProp v k of Inl e \<Rightarrow> Inl e | Inr v' \<Rightarrow> props v' ks)"

text \<open>\<^verbatim>\<open>v || d\<close> with a default \<open>d\<close> that is a JSON value.\<close>

definition jsOr :: "jsval \<Rightarrow> json \<Rightarrow> json" where
  "jsOr v d = (case v of None \<Rightarrow> d | Some j \<Rightarrow> if truthy (Some j) then j else d)"

text \<open>Decimal digits of a number, as string conversion writes them.\<close>

function showNat :: "nat \<Rightarrow> string" where
  "showNat n =
     (if n < 10 then [char_of (48 + n)]
      else showNat (n div 10) @ [char_of (48 + n mod 10)])"
  by pat_completeness auto
termination
  by (relation "measure (\<lambda>n. n)") auto

declare showNat.simps [simp del]

definition showInt :: "int \<Rightarrow> string" where
  "showInt i = (if i < 0 then CHR ''-'' # showNat (nat (- i)) else showNat (nat i))"

fun joinComma :: "string list \<Rightarrow> string" where
  "joinComma [] = []"
| "joinComma [s] = s"
| "joinComma (s # t # ss) = s @ '','' @ joinComma (t # ss)"

text \<open>
  String conversion of a JSON value, as a template literal applies it; \<^verbatim>\<open>join\<close>
  writes a null element of an array as the empty string.
\<close>

fun toStr :: "json \<Rightarrow> string" where
  "toStr JNull = ''null''"
| "toStr (JBool b) = (if b then ''true'' else ''false'')"
| "toStr (JNum n) = showInt n"
| "toStr (JStr s) = s"
| "toStr (JArr xs) = joinComma (map (\<lambda>x. if x = JNull then [] else toStr x) xs)"
| "toStr (JObj kvs) = ''[object Object]''"

definition tplStr :: "jsval \<Rightarrow> string" where
  "tplStr v = (case v of None \<Rightarrow> ''undefined'' | Some j \<Rightarrow> toStr j)"

text \<open>
  \<^verbatim>\<open>v > 0\<close>. Null, booleans and numbers convert as the language defines; any other
  value is first converted to a string, and the conversion of a string to a number is
  the runtime's, taken as the parameter \<open>strPositive\<close> (true when the string reads as
  a number above zero).
\<close>

definition gtZero :: "(string \<Rightarrow> bool) \<Rightarrow> jsval \<Rightarrow> bool" where
  "gtZero strPositive v =
     (case v of
        None \<Rightarrow> False
      | Some JNull \<Rightarrow> False
      | Some (JBool b) \<Rightarrow> b
      | Some (JNum n) \<Rightarrow> 0 < n
      | Some j \<Rightarrow> strPositive (toStr j))"

section \<open>Asynchronous computations that may throw\<close>

text \<open>
  An \<^verbatim>\<open>async\<close> function over a state \<open>'s\<close>: it settles with a thrown value (\<open>Inl\<close>,
  a rejected promise) or a result (\<open>Inr\<close>), and a new state.
\<close>

type_synonym ('s, 'a) eff = "'s \<Rightarrow> (exn + 'a) \<times> 's"

definition ret :: "'a \<Rightarrow> ('s, 'a) eff" where
  "ret a s = (Inr a, s)"

definition throw :: "exn \<Rightarrow> ('s, 'a) eff" where
  "throw e s = (Inl e, s)"

text \<open>A synchronous expression that may throw.\<close>

definition liftE :: "exn + 'a \<Rightarrow> ('s, 'a) eff" where
  "liftE r s = (r, s)"

text \<open>\<^verbatim>\<open>const a = await m; k(a)\<close>: a rejection of \<open>m\<close> skips \<open>k\<close>.\<close>

definition await :: "('s, 'a) eff \<Rightarrow> ('a \<Rightarrow> ('s, 'b) eff) \<Rightarrow> ('s, 'b) eff" where
  "await m k s = (case m s of (Inl e, s') \<Rightarrow> (Inl e, s') | (Inr a, s') \<Rightarrow> k a s')"

text \<open>\<^verbatim>\<open>try { m } catch (error) { h(error) }\<close>.\<close>

definition tryCatch :: "('s, 'a) eff \<Rightarrow> (exn \<Rightarrow> ('s, 'a) eff) \<Rightarrow> ('s, 'a) eff" where
  "tryCatch m h s = (case m s of (Inl e, s') \<Rightarrow> h e s' | (Inr a, s') \<Rightarrow> (Inr a, s'))"

section \<open>TransferProtocolClient: \<open>QuarkWebService.js\<close>\<close>

definition msgStep1 :: string where
  \<comment> \<open>UTF-8 bytes of the source literal; in English: parsing the link\<close>
  "msgStep1 =
     [CHR 0xE8, CHR 0xA7, CHR 0xA3, CHR 0xE6, CHR 0x9E, CHR 0x90, CHR 0xE9, CHR 0x93,
     CHR 0xBE, CHR 0xE6, CHR 0x8E, CHR 0xA5]"

definition msgStep2 :: string where
  \<comment> \<open>UTF-8 bytes of the source literal; in English: getting the share token\<close>
  "msgStep2 =
     [CHR 0xE8, CHR 0x8E, CHR 0xB7, CHR 0xE5, CHR 0x8F, CHR 0x96, CHR 0xE5, CHR 0x88,
     CHR 0x86, CHR 0xE4, CHR 0xBA, CHR 0xAB, CHR 0xE4, CHR 0xBB, CHR 0xA4, CHR 0xE7,
     CHR 0x89, CHR 0x8C]"

definition msgStep3 :: string where
  \<comment> \<open>UTF-8 bytes of the source literal; in English: getting the file detail\<close>
  "msgStep3 =
     [CHR 0xE8, CHR 0x8E, CHR 0xB7, CHR 0xE5, CHR 0x8F, CHR 0x96, CHR 0xE6, CHR 0x96,
     CHR 0x87, CHR 0xE4, CHR 0xBB, CHR 0xB6, CHR 0xE8, CHR 0xAF, CHR 0xA6, CHR 0xE6,
     CHR 0x83, CHR 0x85]"

definition msgStep4 :: string where
  \<comment> \<open>UTF-8 bytes of the source literal; in English: running the save job\<close>
  "msgStep4 =
     [CHR 0xE6, CHR 0x89, CHR 0xA7, CHR 0xE8, CHR 0xA1, CHR 0x8C, CHR 0xE8, CHR 0xBD,
     CHR 0xAC, CHR 0xE5, CHR 0xAD, CHR 0x98, CHR 0xE4, CHR 0xBB, CHR 0xBB, CHR 0xE5,
     CHR 0x8A, CHR 0xA1]"

definition msgStep5 :: string where
  \<comment> \<open>UTF-8 bytes of the source literal; in English: creating the share link\<close>
  "msgStep5 =
     [CHR 0xE7, CHR 0x94, CHR 0x9F, CHR 0xE6, CHR 0x88, CHR 0x90, CHR 0xE5, CHR 0x88,
     CHR 0x86, CHR 0xE4, CHR 0xBA, CHR 0xAB, CHR 0xE9, CHR 0x93, CHR 0xBE, CHR 0xE6,
     CHR 0x8E, CHR 0xA5]"

definition msgDone :: string where
  \<comment> \<open>UTF-8 bytes of the source literal; in English: transfer complete\<close>
  "msgDone =
     [CHR 0xE8, CHR 0xBD, CHR 0xAC, CHR 0xE5, CHR 0xAD, CHR 0x98, CHR 0xE5, CHR 0xAE,
     CHR 0x8C, CHR 0xE6, CHR 0x88, CHR 0x90]"

definition msgNoId :: string where
  \<comment> \<open>UTF-8 bytes of the source literal; in English: cannot extract the file ID from the link\<close>
  "msgNoId =
     [CHR 0xE6, CHR 0x97, CHR 0xA0, CHR 0xE6, CHR 0xB3, CHR 0x95, CHR 0xE4, CHR 0xBB,
     CHR 0x8E, CHR 0xE9, CHR 0x93, CHR 0xBE, CHR 0xE6, CHR 0x8E, CHR 0xA5, CHR 0xE4,
     CHR 0xB8, CHR 0xAD, CHR 0xE6, CHR 0x8F, CHR 0x90, CHR 0xE5, CHR 0x8F, CHR 0x96,
     CHR 0xE6, CHR 0x96, CHR 0x87, CHR 0xE4, CHR 0xBB, CHR 0xB6] @ ''ID''"

definition msgStokenFailed :: string where
  \<comment> \<open>UTF-8 bytes of the source literal; in English: getting the share token failed\<close>
  "msgStokenFailed =
     [CHR 0xE8, CHR 0x8E, CHR 0xB7, CHR 0xE5, CHR 0x8F, CHR 0x96, CHR 0xE5, CHR 0x88,
     CHR 0x86, CHR 0xE4, CHR 0xBA, CHR 0xAB, CHR 0xE4, CHR 0xBB, CHR 0xA4, CHR 0xE7,
     CHR 0x89, CHR 0x8C, CHR 0xE5, CHR 0xA4, CHR 0xB1, CHR 0xE8, CHR 0xB4, CHR 0xA5]"

definition msgDetailFailed :: string where
  \<comment> \<open>UTF-8 bytes of the source literal; in English: getting the file detail failed\<close>
  "msgDetailFailed =
     [CHR 0xE8, CHR 0x8E, CHR 0xB7, CHR 0xE5, CHR 0x8F, CHR 0x96, CHR 0xE6, CHR 0x96,
     CHR 0x87, CHR 0xE4, CHR 0xBB, CHR 0xB6, CHR 0xE8, CHR 0xAF, CHR 0xA6, CHR 0xE6,
     CHR 0x83, CHR 0x85, CHR 0xE5, CHR 0xA4, CHR 0xB1, CHR 0xE8, CHR 0xB4, CHR 0xA5]"

definition msgSaveTaskIdFailed :: string where
  \<comment> \<open>UTF-8 bytes of the source literal; in English: getting the save task ID failed\<close>
  "msgSaveTaskIdFailed =
     [CHR 0xE8, CHR 0x8E, CHR 0xB7, CHR 0xE5, CHR 0x8F, CHR 0x96, CHR 0xE4, CHR 0xBF,
     CHR 0x9D, CHR 0xE5, CHR 0xAD, CHR 0x98, CHR 0xE4, CHR 0xBB, CHR 0xBB, CHR 0xE5,
     CHR 0x8A, CHR 0xA1] @ ''ID'' @ [CHR 0xE5, CHR 0xA4, CHR 0xB1, CHR 0xE8, CHR 0xB4,
     CHR 0xA5]"

definition msgSaveTaskFailed :: string where
  \<comment> \<open>UTF-8 bytes of the source literal; in English: running the save job failed\<close>
  "msgSaveTaskFailed =
     [CHR 0xE6, CHR 0x89, CHR 0xA7, CHR 0xE8, CHR 0xA1, CHR 0x8C, CHR 0xE4, CHR 0xBF,
     CHR 0x9D, CHR 0xE5, CHR 0xAD, CHR 0x98, CHR 0xE4, CHR 0xBB, CHR 0xBB, CHR 0xE5,
     CHR 0x8A, CHR 0xA1, CHR 0xE5, CHR 0xA4, CHR 0xB1, CHR 0xE8, CHR 0xB4, CHR 0xA5]"

definition msgShareTaskIdFailed :: string where
  \<comment> \<open>UTF-8 bytes of the source literal; in English: creating the share job failed\<close>
  "msgShareTaskIdFailed =
     [CHR 0xE5, CHR 0x88, CHR 0x9B, CHR 0xE5, CHR 0xBB, CHR 0xBA, CHR 0xE5, CHR 0x88,
     CHR 0x86, CHR 0xE4, CHR 0xBA, CHR 0xAB, CHR 0xE4, CHR 0xBB, CHR 0xBB, CHR 0xE5,
     CHR 0x8A, CHR 0xA1, CHR 0xE5, CHR 0xA4, CHR 0xB1, CHR 0xE8, CHR 0xB4, CHR 0xA5]"

definition msgShareTaskFailed :: string where
  \<comment> \<open>UTF-8 bytes of the source literal; in English: running the share job failed\<close>
  "msgShareTaskFailed =
     [CHR 0xE6, CHR 0x89, CHR 0xA7, CHR 0xE8, CHR 0xA1, CHR 0x8C, CHR 0xE5, CHR 0x88,
     CHR 0x86, CHR 0xE4, CHR 0xBA, CHR 0xAB, CHR 0xE4, CHR 0xBB, CHR 0xBB, CHR 0xE5,
     CHR 0x8A, CHR 0xA1, CHR 0xE5, CHR 0xA4, CHR 0xB1, CHR 0xE8, CHR 0xB4, CHR 0xA5]"

definition msgShareLinkFailed :: string where
  \<comment> \<open>UTF-8 bytes of the source literal; in English: getting the share link failed\<close>
  "msgShareLinkFailed =
     [CHR 0xE8, CHR 0x8E, CHR 0xB7, CHR 0xE5, CHR 0x8F, CHR 0x96, CHR 0xE5, CHR 0x88,
     CHR 0x86, CHR 0xE4, CHR 0xBA, CHR 0xAB, CHR 0xE9, CHR 0x93, CHR 0xBE, CHR 0xE6,
     CHR 0x8E, CHR 0xA5, CHR 0xE5, CHR 0xA4, CHR 0xB1, CHR 0xE8, CHR 0xB4, CHR 0xA5]"

definition msgStoreOk :: string where
  \<comment> \<open>UTF-8 bytes of the source literal; in English: file transferred: (with a trailing space)\<close>
  "msgStoreOk =
     [CHR 0xE6, CHR 0x96, CHR 0x87, CHR 0xE4, CHR 0xBB, CHR 0xB6, CHR 0xE8, CHR 0xBD,
     CHR 0xAC, CHR 0xE5, CHR 0xAD, CHR 0x98, CHR 0xE6, CHR 0x88, CHR 0x90, CHR 0xE5,
     CHR 0x8A, CHR 0x9F] @ '': ''"

definition msgStoreFailed :: string where
  \<comment> \<open>UTF-8 bytes of the source literal; in English: transfer failed: (with a trailing space)\<close>
  "msgStoreFailed =
     [CHR 0xE8, CHR 0xBD, CHR 0xAC, CHR 0xE5, CHR 0xAD, CHR 0x98, CHR 0xE5, CHR 0xA4,
     CHR 0xB1, CHR 0xE8, CHR 0xB4, CHR 0xA5] @ '': ''"

text \<open>
  The six upstream calls, each with the values that the source puts into its path or
  body. The constant parts of a path and the \<^verbatim>\<open>__t\<close> and \<^verbatim>\<open>__dt\<close> parameters (clock
  and random values) are left to the environment.
  \<^item> \<open>TokenReq pwdId\<close>: POST \<^verbatim>\<open>/1/clouddrive/share/sharepage/token\<close>, body
    \<^verbatim>\<open>{pwd_id, passcode: ""}\<close>;
  \<^item> \<open>DetailReq pwdId stoken\<close>: GET \<^verbatim>\<open>/1/clouddrive/share/sharepage/detail\<close> with
    \<^verbatim>\<open>pwd_id\<close>, \<^verbatim>\<open>stoken\<close>, \<^verbatim>\<open>pdir_fid=0\<close>, \<^verbatim>\<open>_page=1\<close>, \<^verbatim>\<open>_size=50\<close>;
  \<^item> \<open>SaveReq pwdId stoken firstId shareFidToken\<close>: POST
    \<^verbatim>\<open>/1/clouddrive/share/sharepage/save\<close>, body \<^verbatim>\<open>{fid_list: [firstId],
    fid_token_list: [shareFidToken], to_pdir_fid: "0", pwd_id, stoken, pdir_fid: "0",
    scene: "link"}\<close>;
  \<^item> \<open>TaskReq taskId i\<close>: GET \<^verbatim>\<open>/1/clouddrive/task\<close> with \<^verbatim>\<open>task_id\<close> and
    \<^verbatim>\<open>retry_index=i\<close>;
  \<^item> \<open>ShareReq fileId fileName\<close>: POST \<^verbatim>\<open>/1/clouddrive/share\<close>, body
    \<^verbatim>\<open>{fid_list: [fileId], title: fileName, url_type: 1, expired_type: 1}\<close>;
  \<^item> \<open>PasswordReq shareId\<close>: POST \<^verbatim>\<open>/1/clouddrive/share/password\<close>, body
    \<^verbatim>\<open>{share_id}\<close>.
\<close>

datatype request =
    TokenReq string
  | DetailReq string json
  | SaveReq string json jsval jsval
  | TaskReq json nat
  | ShareReq jsval jsval
  | PasswordReq jsval

text \<open>
  What \<^verbatim>\<open>fetch\<close> settles with: a rejection (\<^verbatim>\<open>AbortError\<close> when the 30 second timer
  aborts the attempt, \<^verbatim>\<open>TypeError\<close> on a network failure), or a response with its
  status, the outcome of \<^verbatim>\<open>response.text()\<close> (\<open>None\<close> when it rejects) and of
  \<^verbatim>\<open>response.json()\<close>.
\<close>

record response =
  status :: nat
  statusText :: string
  bodyText :: "string option"
  bodyJson :: "exn + json"

datatype fetch_result = Rejects exn | Responds response

text \<open>\<^verbatim>\<open>response.ok\<close>: the status is in the range 200 to 299.\<close>

definition ok :: "response \<Rightarrow> bool" where
  "ok r = (200 \<le> status r \<and> status r \<le> 299)"

text \<open>
  The environment of the client over a world \<open>'w\<close>: the upstream behind \<^verbatim>\<open>fetch\<close>,
  the passing of time in \<^verbatim>\<open>setTimeout\<close> delays (in milliseconds), and the string to
  number conversion of the runtime. The logger is not modelled: its calls
  return nothing and \<^verbatim>\<open>Logger.js\<close> has no \<^verbatim>\<open>throw\<close>.
\<close>

record 'w env =
  fetch :: "request \<Rightarrow> 'w \<Rightarrow> fetch_result \<times> 'w"
  sleep :: "nat \<Rightarrow> 'w \<Rightarrow> 'w"
  strPositive :: "string \<Rightarrow> bool"

text \<open>
  The \<^verbatim>\<open>try\<close> block of one attempt of \<^verbatim>\<open>request\<close>: a status outside 2xx throws
  \<^verbatim>\<open>Error(`HTTP ${status}: ${errorText}`)\<close>, where the text is the body or, when the
  body cannot be read, the status text.
\<close>

definition attemptOnce :: "'w env \<Rightarrow> request \<Rightarrow> ('w, json) eff" where
  "attemptOnce env req w =
     (case fetch env req w of
        (Rejects e, w') \<Rightarrow> (Inl e, w')
      | (Responds r, w') \<Rightarrow>
          if \<not> ok r
          then (Inl (Exn ''Error''
                      (''HTTP '' @ showNat (status r) @ '': ''
                       @ (case bodyText r of Some t \<Rightarrow> t | None \<Rightarrow> statusText r))), w')
          else (bodyJson r, w'))"

text \<open>
  The loop of \<^verbatim>\<open>request(path, options, retries)\<close> from \<open>attempt\<close> on. The \<^verbatim>\<open>catch\<close>
  block keeps the error, logs it (by kind: timeout, network, other) and, while
  attempts remain, waits \<^verbatim>\<open>min(1000 * 2^(attempt-1), 5000)\<close> ms; then the loop goes on.
  After the loop the last error is thrown; \<open>lastError\<close> is \<open>None\<close> (undefined) only
  when the loop has not run.
\<close>

function request_loop ::
  "'w env \<Rightarrow> request \<Rightarrow> nat \<Rightarrow> nat \<Rightarrow> exn option \<Rightarrow> ('w, json) eff" where
  "request_loop env req retries attempt lastError w =
     (if attempt \<le> retries
      then (case attemptOnce env req w of
              (Inr j, w') \<Rightarrow> (Inr j, w')
            | (Inl error, w') \<Rightarrow>
                request_loop env req retries (attempt + 1) (Some error)
                  (if attempt < retries
                   then sleep env (min (1000 * 2 ^ (attempt - 1)) 5000) w'
                   else w'))
      else (case lastError of
              Some error \<Rightarrow> (Inl error, w)
            | None \<Rightarrow> (Inl (Exn ''undefined'' []), w)))"
  by pat_completeness auto
termination
  by (relation "measure (\<lambda>(env, req, retries, attempt, lastError, w). retries + 1 - attempt)")
     auto

declare request_loop.simps [simp del]

text \<open>\<^verbatim>\<open>request(path, options)\<close>: every call site leaves \<^verbatim>\<open>retries\<close> at its default 3.\<close>

definition request :: "'w env \<Rightarrow> request \<Rightarrow> ('w, json) eff" where
  "request env req = request_loop env req 3 1 None"

text \<open>\<^verbatim>\<open>getStoken(pwdId)\<close>: the token, or the empty string on any failure.\<close>

definition getStoken :: "'w env \<Rightarrow> string \<Rightarrow> ('w, json) eff" where
  "getStoken env pwdId =
     tryCatch
       (await (request env (TokenReq pwdId)) (\<lambda>response.
          ret (jsOr (optProps (Some response) [''data'', ''stoken'']) (JStr []))))
       (\<lambda>error. ret (JStr []))"

text \<open>The object that \<^verbatim>\<open>detail\<close> builds from the first entry of the file list.\<close>

record detail_info =
  title :: jsval
  file_type :: jsval
  fid :: jsval
  pdir_fid :: jsval
  share_fid_token :: jsval

text \<open>
  \<^verbatim>\<open>detail(pwdId, stoken)\<close>: the first entry of \<^verbatim>\<open>response.data.list\<close>, or null
  (\<open>None\<close>) when the list is empty or anything throws, also the reading of a property
  of an entry that is null or undefined.
\<close>

definition detail :: "'w env \<Rightarrow> string \<Rightarrow> json \<Rightarrow> ('w, detail_info option) eff" where
  "detail env pwdId stoken =
     tryCatch
       (await (request env (DetailReq pwdId stoken)) (\<lambda>response.
          if gtZero (strPositive env) (optProps (Some response) [''data'', ''list'', ''length''])
          then
            await (liftE (props (Some response) [''data'', ''list''])) (\<lambda>list.
            await (liftE (elem0 list)) (\<lambda>idList.
            await (liftE (strictProp idList ''file_name'')) (\<lambda>file_name.
            await (liftE (strictProp idList ''file_type'')) (\<lambda>file_type.
            await (liftE (strictProp idList ''fid'')) (\<lambda>fid.
            await (liftE (strictProp idList ''pdir_fid'')) (\<lambda>pdir_fid.
            await (liftE (strictProp idList ''share_fid_token'')) (\<lambda>share_fid_token.
              ret (Some \<lparr>title = file_name, file_type = file_type, fid = fid,
                         pdir_fid = pdir_fid, share_fid_token = share_fid_token\<rparr>))))))))
          else ret None))
       (\<lambda>error. ret None)"

text \<open>\<^verbatim>\<open>saveTaskId(pwdId, stoken, firstId, shareFidToken)\<close>: the task id, or the empty string.\<close>

definition saveTaskId :: "'w env \<Rightarrow> string \<Rightarrow> json \<Rightarrow> jsval \<Rightarrow> jsval \<Rightarrow> ('w, json) eff" where
  "saveTaskId env pwdId stoken firstId shareFidToken =
     tryCatch
       (await (request env (SaveReq pwdId stoken firstId shareFidToken)) (\<lambda>response.
          ret (jsOr (optProps (Some response) [''data'', ''task_id'']) (JStr []))))
       (\<lambda>error. ret (JStr []))"

text \<open>
  The \<^verbatim>\<open>for\<close> loop of \<^verbatim>\<open>task(taskId, maxTries)\<close> from index \<open>i\<close> on: one request per
  round, returned as soon as \<^verbatim>\<open>response?.data?.status\<close> is truthy, and a wait of one
  second after every other round; null after the last round.
\<close>

function task_loop :: "'w env \<Rightarrow> json \<Rightarrow> nat \<Rightarrow> nat \<Rightarrow> ('w, json) eff" where
  "task_loop env taskId maxTries i w =
     (if i < maxTries
      then (case request env (TaskReq taskId i) w of
              (Inl error, w') \<Rightarrow> (Inl error, w')
            | (Inr response, w') \<Rightarrow>
                if truthy (optProps (Some response) [''data'', ''status''])
                then (Inr response, w')
                else task_loop env taskId maxTries (i + 1) (sleep env 1000 w'))
      else (Inr JNull, w))"
  by pat_completeness auto
termination
  by (relation "measure (\<lambda>(env, taskId, maxTries, i, w). maxTries - i)") auto

declare task_loop.simps [simp del]

text \<open>\<^verbatim>\<open>task(taskId, maxTries)\<close>: the \<^verbatim>\<open>catch\<close> turns a failed request into null.\<close>

definition task :: "'w env \<Rightarrow> json \<Rightarrow> nat \<Rightarrow> ('w, json) eff" where
  "task env taskId maxTries = tryCatch (task_loop env taskId maxTries 0) (\<lambda>error. ret JNull)"

text \<open>\<^verbatim>\<open>shareTaskId(fileId, fileName)\<close>: the task id, or the empty string.\<close>

definition shareTaskId :: "'w env \<Rightarrow> jsval \<Rightarrow> jsval \<Rightarrow> ('w, json) eff" where
  "shareTaskId env fileId fileName =
     tryCatch
       (await (request env (ShareReq fileId fileName)) (\<lambda>response.
          ret (jsOr (optProps (Some response) [''data'', ''task_id'']) (JStr []))))
       (\<lambda>error. ret (JStr []))"

text \<open>\<^verbatim>\<open>getShareLink(shareId)\<close>: the share URL, or the empty string.\<close>

definition getShareLink :: "'w env \<Rightarrow> jsval \<Rightarrow> ('w, json) eff" where
  "getShareLink env shareId =
     tryCatch
       (await (request env (PasswordReq shareId)) (\<lambda>response.
          ret (jsOr (optProps (Some response) [''data'', ''share_url'']) (JStr []))))
       (\<lambda>error. ret (JStr []))"

text \<open>The result of \<^verbatim>\<open>store\<close>: \<^verbatim>\<open>{success, message, data}\<close>, with \<^verbatim>\<open>data\<close> on success only.\<close>

record transfer_data =
  fileId :: jsval
  fileName :: jsval
  fileType :: jsval
  shareLink :: json

record outcome =
  success :: bool
  message :: string
  data :: "transfer_data option"

text \<open>
  The caller's progress callback over a state \<open>'c\<close> of its own: called with the step,
  the message and the percentage, it returns or throws (\<open>Some\<close>). The client runs over
  the world of the upstream and the state of the callback.
\<close>

type_synonym 'c callback = "int \<Rightarrow> string \<Rightarrow> int \<Rightarrow> 'c \<Rightarrow> exn option \<times> 'c"

text \<open>\<^verbatim>\<open>progressCallback?.(step, message, percent)\<close>: no call when there is no callback.\<close>

definition progress ::
  "'c callback option \<Rightarrow> int \<Rightarrow> string \<Rightarrow> int \<Rightarrow> ('w \<times> 'c, unit) eff" where
  "progress progressCallback step msg percent s =
     (case progressCallback of
        None \<Rightarrow> (Inr (), s)
      | Some f \<Rightarrow>
          (case f step msg percent (snd s) of
             (None, c') \<Rightarrow> (Inr (), (fst s, c'))
           | (Some e, c') \<Rightarrow> (Inl e, (fst s, c'))))"

text \<open>A call of the client that touches the world only.\<close>

definition onWorld :: "('w, 'a) eff \<Rightarrow> ('w \<times> 'c, 'a) eff" where
  "onWorld m s = (case m (fst s) of (r, w') \<Rightarrow> (r, (w', snd s)))"

text \<open>
  \<^verbatim>\<open>store(url, progressCallback)\<close>: the five steps inside one \<^verbatim>\<open>try\<close>; the
  \<^verbatim>\<open>catch\<close> reports step -1 to the callback and returns the failure outcome.
\<close>

definition store :: "'w env \<Rightarrow> 'c callback option \<Rightarrow> string \<Rightarrow> ('w \<times> 'c, outcome) eff" where
  "store env progressCallback url =
     tryCatch
       (await (progress progressCallback 1 msgStep1 10) (\<lambda>_.
        let pwdId = getIdFromUrl url in
        if pwdId = [] then throw (Exn ''Error'' msgNoId) else
        await (progress progressCallback 2 msgStep2 20) (\<lambda>_.
        await (onWorld (getStoken env pwdId)) (\<lambda>stoken.
        if \<not> truthy (Some stoken) then throw (Exn ''Error'' msgStokenFailed) else
        await (progress progressCallback 3 msgStep3 40) (\<lambda>_.
        await (onWorld (detail env pwdId stoken)) (\<lambda>detail.
        case detail of
          None \<Rightarrow> throw (Exn ''Error'' msgDetailFailed)
        | Some d \<Rightarrow>
        let fileName = title d in
        await (progress progressCallback 4 msgStep4 60) (\<lambda>_.
        await (onWorld (saveTaskId env pwdId stoken (fid d) (share_fid_token d))) (\<lambda>saveTaskId.
        if \<not> truthy (Some saveTaskId) then throw (Exn ''Error'' msgSaveTaskIdFailed) else
        await (onWorld (task env saveTaskId 10)) (\<lambda>taskResponse.
        if \<not> truthy (optProps (Some taskResponse)
                        [''data'', ''save_as'', ''save_as_top_fids'', ''length''])
        then throw (Exn ''Error'' msgSaveTaskFailed) else
        await (liftE (props (Some taskResponse) [''data'', ''save_as'', ''save_as_top_fids''])) (\<lambda>fids.
        await (liftE (elem0 fids)) (\<lambda>fileId.
        await (progress progressCallback 5 msgStep5 80) (\<lambda>_.
        await (onWorld (shareTaskId env fileId fileName)) (\<lambda>shareTaskId.
        if \<not> truthy (Some shareTaskId) then throw (Exn ''Error'' msgShareTaskIdFailed) else
        await (onWorld (task env shareTaskId 10)) (\<lambda>shareTaskResponse.
        if \<not> truthy (optProps (Some shareTaskResponse) [''data'', ''share_id''])
        then throw (Exn ''Error'' msgShareTaskFailed) else
        await (liftE (props (Some shareTaskResponse) [''data'', ''share_id''])) (\<lambda>shareId.
        await (onWorld (getShareLink env shareId)) (\<lambda>shareLink.
        if \<not> truthy (Some shareLink) then throw (Exn ''Error'' msgShareLinkFailed) else
        await (progress progressCallback 5 msgDone 100) (\<lambda>_.
          ret \<lparr>success = True,
               message = msgStoreOk @ tplStr fileName,
               data = Some \<lparr>fileId = fileId, fileName = fileName,
                            fileType = file_type d, shareLink = shareLink\<rparr>\<rparr>)))))))))))))))))
       (\<lambda>error.
          await (progress progressCallback (- 1) (msgStoreFailed @ exnMessage error) 0) (\<lambda>_.
            ret \<lparr>success = False, message = msgStoreFailed @ exnMessage error, data = None\<rparr>))"

section \<open>Test environments\<close>

text \<open>A response with status 200 whose body parses to the given JSON value.\<close>

definition okJson :: "json \<Rightarrow> fetch_result" where
  "okJson j = Responds \<lparr>status = 200, statusText = ''OK'', bodyText = None, bodyJson = Inr j\<rparr>"

text \<open>A response with the given status outside 2xx and a body that is not JSON.\<close>

definition httpError :: "nat \<Rightarrow> string \<Rightarrow> fetch_result" where
  "httpError code body =
     Responds \<lparr>status = code, statusText = [], bodyText = Some body,
               bodyJson = Inl (Exn ''SyntaxError'' ''Unexpected token'')\<rparr>"

text \<open>The envelope \<^verbatim>\<open>{status: 200, code: 0, data: {...}}\<close> of the upstream API.\<close>

definition envelope :: "(string \<times> json) list \<Rightarrow> json" where
  "envelope kvs = JObj [(''status'', JNum 200), (''code'', JNum 0), (''data'', JObj kvs)]"

text \<open>
  The mocked upstream of the end-to-end scenario: token \<^verbatim>\<open>tok1\<close> for share
  \<^verbatim>\<open>abc123\<close>, one file, a save job and a share job that are resolved at every poll,
  and the share link; anything else is answered with status 404.
\<close>

definition mockUpstream :: "request \<Rightarrow> fetch_result" where
  "mockUpstream req =
     (case req of
        TokenReq pwdId \<Rightarrow>
          if pwdId = ''abc123'' then okJson (envelope [(''stoken'', JStr ''tok1'')])
          else httpError 404 ''not found''
      | DetailReq pwdId stoken \<Rightarrow>
          if pwdId = ''abc123'' \<and> stoken = JStr ''tok1''
          then okJson (envelope
                 [(''list'', JArr [JObj [(''file_name'', JStr ''movie.mp4''),
                                        (''fid'', JStr ''f1''),
                                        (''share_fid_token'', JStr ''sft1'')]])])
          else httpError 404 ''not found''
      | SaveReq pwdId stoken firstId shareFidToken \<Rightarrow>
          if pwdId = ''abc123'' \<and> stoken = JStr ''tok1'' \<and> firstId = Some (JStr ''f1'')
             \<and> shareFidToken = Some (JStr ''sft1'')
          then okJson (envelope [(''task_id'', JStr ''task1'')])
          else httpError 404 ''not found''
      | TaskReq taskId i \<Rightarrow>
          if taskId = JStr ''task1''
          then okJson (envelope
                 [(''status'', JNum 2),
                  (''save_as'', JObj [(''save_as_top_fids'', JArr [JStr ''newid1''])])])
          else if taskId = JStr ''task2''
          then okJson (envelope [(''status'', JNum 2), (''share_id'', JStr ''sh1'')])
          else httpError 404 ''not found''
      | ShareReq savedId savedName \<Rightarrow>
          if savedId = Some (JStr ''newid1'') \<and> savedName = Some (JStr ''movie.mp4'')
          then okJson (envelope [(''task_id'', JStr ''task2'')])
          else httpError 404 ''not found''
      | PasswordReq shareId \<Rightarrow>
          if shareId = Some (JStr ''sh1'')
          then okJson (envelope [(''share_url'', JStr ''https://pan.quark.cn/s/newlink'')])
          else httpError 404 ''not found'')"

definition mockEnv :: "unit env" where
  "mockEnv = \<lparr>fetch = (\<lambda>req w. (mockUpstream req, w)), sleep = (\<lambda>ms w. w),
              strPositive = (\<lambda>s. False)\<rparr>"

text \<open>
  A scripted upstream: the world is the list of the results of the coming \<^verbatim>\<open>fetch\<close>
  calls, each call takes the next one, and a call after the last is a network failure.
\<close>

definition scriptEnv :: "fetch_result list env" where
  "scriptEnv =
     \<lparr>fetch = (\<lambda>req w. case w of
                          [] \<Rightarrow> (Rejects (Exn ''TypeError'' ''Failed to fetch''), [])
                        | r # rs \<Rightarrow> (r, rs)),
      sleep = (\<lambda>ms w. w),
      strPositive = (\<lambda>s. False)\<rparr>"

text \<open>A callback that does nothing, and one that throws when it is told 100 percent.\<close>

definition quietCallback :: "unit callback" where
  "quietCallback step msg percent c = (None, c)"




section \<open>BatchTransferController: \<open>TransferPanel.js\<close>\<close>

definition msgNoCookie :: string where
  \<comment> \<open>UTF-8 bytes of the source literal; in English: please configure the cookie in the settings first\<close>
  "msgNoCookie =
     [CHR 0xE8, CHR 0xAF, CHR 0xB7, CHR 0xE5, CHR 0x85, CHR 0x88, CHR 0xE5, CHR 0x9C,
     CHR 0xA8, CHR 0xE8, CHR 0xAE, CHR 0xBE, CHR 0xE7, CHR 0xBD, CHR 0xAE, CHR 0xE4,
     CHR 0xB8, CHR 0xAD, CHR 0xE9, CHR 0x85, CHR 0x8D, CHR 0xE7, CHR 0xBD,
     CHR 0xAE] @ ''Cookie''"

definition txtBoth :: string where
  \<comment> \<open>UTF-8 bytes of the source literal; in English: both the file name and the link\<close>
  "txtBoth =
     [CHR 0xE6, CHR 0x96, CHR 0x87, CHR 0xE4, CHR 0xBB, CHR 0xB6, CHR 0xE5, CHR 0x90,
     CHR 0x8D, CHR 0xE5, CHR 0x92, CHR 0x8C, CHR 0xE9, CHR 0x93, CHR 0xBE, CHR 0xE6,
     CHR 0x8E, CHR 0xA5, CHR 0xE9, CHR 0x83, CHR 0xBD]"

definition txtName :: string where
  \<comment> \<open>UTF-8 bytes of the source literal; in English: the file name\<close>
  "txtName =
     [CHR 0xE6, CHR 0x96, CHR 0x87, CHR 0xE4, CHR 0xBB, CHR 0xB6, CHR 0xE5, CHR 0x90,
     CHR 0x8D]"

definition txtLink :: string where
  \<comment> \<open>UTF-8 bytes of the source literal; in English: the link\<close>
  "txtLink =
     [CHR 0xE9, CHR 0x93, CHR 0xBE, CHR 0xE6, CHR 0x8E, CHR 0xA5]"

definition msgSkipA :: string where
  \<comment> \<open>UTF-8 bytes of the source literal; in English: file (followed by a space and a double quote)\<close>
  "msgSkipA =
     [CHR 0xE6, CHR 0x96, CHR 0x87, CHR 0xE4, CHR 0xBB, CHR 0xB6] @ [CHR '' '', CHR 0x22]"

definition msgSkipB :: string where
  \<comment> \<open>UTF-8 bytes of the source literal; in English: already exists (after a double quote and a space, before a full-width parenthesis)\<close>
  "msgSkipB =
     [CHR 0x22, CHR '' ''] @ [CHR 0xE5, CHR 0xB7, CHR 0xB2, CHR 0xE5, CHR 0xAD, CHR 0x98, CHR 0xE5,
     CHR 0x9C, CHR 0xA8, CHR 0xEF, CHR 0xBC, CHR 0x88]"

definition msgSkipC :: string where
  \<comment> \<open>UTF-8 bytes of the source literal; in English: duplicated), transfer skipped\<close>
  "msgSkipC =
     [CHR 0xE9, CHR 0x87, CHR 0x8D, CHR 0xE5, CHR 0xA4, CHR 0x8D, CHR 0xEF, CHR 0xBC,
     CHR 0x89, CHR 0xEF, CHR 0xBC, CHR 0x8C, CHR 0xE8, CHR 0xB7, CHR 0xB3, CHR 0xE8,
     CHR 0xBF, CHR 0x87, CHR 0xE8, CHR 0xBD, CHR 0xAC, CHR 0xE5, CHR 0xAD, CHR 0x98]"

text \<open>
  What the panel reads of the object that \<^verbatim>\<open>quarkService.getFileInfo(url)\<close> returns.
\<close>

record file_info =
  info_fileName :: jsval

text \<open>
  The collaborators that are handed to the panel, over a state \<open>'s\<close>:
  \<^verbatim>\<open>quarkService.getFileInfo\<close> and \<^verbatim>\<open>quarkService.store\<close> (called without a
  callback), \<^verbatim>\<open>dbService.checkDuplicate\<close> and \<^verbatim>\<open>dbService.insertFile\<close>, the
  cookie of the settings, and the passing of time in a delay. The calls that render
  (\<^verbatim>\<open>updateProgress\<close>, \<^verbatim>\<open>showBatchResult\<close>, notifications) are not modelled.
\<close>

record 's panel =
  svcGetFileInfo :: "string \<Rightarrow> ('s, file_info option) eff"
  svcStore :: "string \<Rightarrow> ('s, outcome) eff"
  dbCheckDuplicate :: "json \<Rightarrow> string \<Rightarrow> ('s, verdict) eff"
  dbInsertFile :: "jsval \<Rightarrow> jsval \<Rightarrow> jsval \<Rightarrow> json \<Rightarrow> ('s, unit) eff"
  defaultCookie :: "'s \<Rightarrow> string"
  delay :: "nat \<Rightarrow> 's \<Rightarrow> 's"

text \<open>
  An entry of \<^verbatim>\<open>this.batchResults\<close>. A field that the pushed object does not have
  is \<open>None\<close> (\<open>False\<close> for \<^verbatim>\<open>skipped\<close>).
\<close>

record batch_result =
  br_link :: string
  br_success :: bool
  br_message :: "string option"
  br_skipped :: bool
  br_duplicateType :: "string option"
  br_fileName :: "json option"
  br_data :: "transfer_data option"

text \<open>Which of the three counters an entry adds to.\<close>

datatype tally = Succeeded | Failed | Skipped

text \<open>\<^verbatim>\<open>extractFileName(url, quarkService)\<close>: the file name, or null on any failure.\<close>

definition extractFileName :: "'s panel \<Rightarrow> string \<Rightarrow> ('s, json) eff" where
  "extractFileName p url =
     tryCatch
       (await (svcGetFileInfo p url) (\<lambda>fileInfo.
          ret (jsOr (case fileInfo of None \<Rightarrow> None | Some fi \<Rightarrow> info_fileName fi) JNull)))
       (\<lambda>error. ret JNull)"

definition duplicateTypeText :: "duplicate_type \<Rightarrow> string" where
  "duplicateTypeText t =
     (if t = DupBoth then txtBoth else if t = DupName then txtName else txtLink)"

definition skippedEntry :: "string \<Rightarrow> json \<Rightarrow> duplicate_type \<Rightarrow> batch_result" where
  "skippedEntry link name t =
     \<lparr>br_link = link, br_success = False,
      br_message = Some (msgSkipA @ tplStr (Some name) @ msgSkipB @ duplicateTypeText t
                         @ msgSkipC),
      br_skipped = True, br_duplicateType = Some (duplicateTypeText t),
      br_fileName = Some name, br_data = None\<rparr>"

definition succeededEntry :: "string \<Rightarrow> transfer_data \<Rightarrow> batch_result" where
  "succeededEntry link d =
     \<lparr>br_link = link, br_success = True, br_message = None, br_skipped = False,
      br_duplicateType = None, br_fileName = None, br_data = Some d\<rparr>"

definition failedEntry :: "string \<Rightarrow> string \<Rightarrow> batch_result" where
  "failedEntry link msg =
     \<lparr>br_link = link, br_success = False, br_message = Some msg, br_skipped = False,
      br_duplicateType = None, br_fileName = None, br_data = None\<rparr>"

text \<open>
  The second half of the inner \<^verbatim>\<open>try\<close> block of the loop: the transfer and, on
  success, the insertion of the record, up to the entry that is pushed. Reading
  \<^verbatim>\<open>result.data.fileId\<close> throws when a successful result has no \<^verbatim>\<open>data\<close>.
\<close>

definition storeAndRecord :: "'s panel \<Rightarrow> string \<Rightarrow> ('s, batch_result \<times> tally) eff" where
  "storeAndRecord p link =
     await (svcStore p link) (\<lambda>result.
       if success result
       then (case data result of
               None \<Rightarrow> throw (typeError ''undefined'' ''fileId'')
             | Some d \<Rightarrow>
                 await (dbInsertFile p (fileId d) (fileName d) (fileType d) (shareLink d))
                   (\<lambda>_. ret (succeededEntry link d, Succeeded)))
       else ret (failedEntry link (message result), Failed))"

text \<open>
  The inner \<^verbatim>\<open>try\<close> block for one link: when a file name was found, the duplicate
  check, and on a duplicate the skipped entry and \<^verbatim>\<open>continue\<close>; in every other case
  the second half.
\<close>

definition transferItemTry :: "'s panel \<Rightarrow> string \<Rightarrow> ('s, batch_result \<times> tally) eff" where
  "transferItemTry p link =
     await (extractFileName p link) (\<lambda>name.
       if truthy (Some name)
       then await (dbCheckDuplicate p name link) (\<lambda>duplicateCheck.
              if exists duplicateCheck
              then ret (skippedEntry link name (duplicateType duplicateCheck), Skipped)
              else storeAndRecord p link)
       else storeAndRecord p link)"

text \<open>The \<^verbatim>\<open>try\<close> block with its \<^verbatim>\<open>catch\<close>: an exception becomes a failed entry.\<close>

definition transferItem :: "'s panel \<Rightarrow> string \<Rightarrow> ('s, batch_result \<times> tally) eff" where
  "transferItem p link =
     tryCatch (transferItemTry p link)
       (\<lambda>error. ret (failedEntry link (exnMessage error), Failed))"

text \<open>\<^verbatim>\<open>this.batchResults\<close> and the three counters of the loop.\<close>

record batch_state =
  batchResults :: "batch_result list"
  successCount :: nat
  failCount :: nat
  skipCount :: nat

definition pushEntry :: "batch_result \<times> tally \<Rightarrow> batch_state \<Rightarrow> batch_state" where
  "pushEntry rt b =
     (case rt of
        (entry, Succeeded) \<Rightarrow>
          b\<lparr>batchResults := batchResults b @ [entry], successCount := successCount b + 1\<rparr>
      | (entry, Failed) \<Rightarrow>
          b\<lparr>batchResults := batchResults b @ [entry], failCount := failCount b + 1\<rparr>
      | (entry, Skipped) \<Rightarrow>
          b\<lparr>batchResults := batchResults b @ [entry], skipCount := skipCount b + 1\<rparr>)"

text \<open>
  The \<^verbatim>\<open>for\<close> loop over the links that remain, the first of them at index \<open>i\<close>. A
  skipped link goes on at once (\<^verbatim>\<open>continue\<close>); after any other link but the last
  the loop waits one second. An exception that left the body would leave the loop.
\<close>

fun batch_loop ::
  "'s panel \<Rightarrow> nat \<Rightarrow> nat \<Rightarrow> string list \<Rightarrow> batch_state \<Rightarrow> ('s, batch_state) eff" where
  "batch_loop p totalLinks i [] b s = (Inr b, s)"
| "batch_loop p totalLinks i (link # links) b s =
     (case transferItem p link s of
        (Inl error, s') \<Rightarrow> (Inl error, s')
      | (Inr (entry, t), s') \<Rightarrow>
          batch_loop p totalLinks (i + 1) links (pushEntry (entry, t) b)
            (if t \<noteq> Skipped \<and> i < totalLinks - 1 then delay p 1000 s' else s'))"

definition emptyBatch :: batch_state where
  "emptyBatch = \<lparr>batchResults = [], successCount = 0, failCount = 0, skipCount = 0\<rparr>"

text \<open>
  \<^verbatim>\<open>handleBatchTransfer()\<close> over the detected links: the result is the state that
  \<^verbatim>\<open>showBatchResult\<close> is called with, or \<open>None\<close> when it is not called (no link, or an
  error before or in the loop, which the outer \<^verbatim>\<open>catch\<close> reports).
\<close>

definition handleBatchTransfer :: "'s panel \<Rightarrow> string list \<Rightarrow> ('s, batch_state option) eff" where
  "handleBatchTransfer p detectedLinks =
     (if detectedLinks = [] then ret None
      else tryCatch
             (\<lambda>s. if defaultCookie p s = []
                  then throw (Exn ''Error'' msgNoCookie) s
                  else await (batch_loop p (length detectedLinks) 0 detectedLinks emptyBatch)
                         (\<lambda>b. ret (Some b)) s)
             (\<lambda>error. ret None))"

text \<open>
  A panel for three links: the transfer of the first succeeds, that of the second
  throws, that of the third returns a failure; no file name is found beforehand.
\<close>

definition demoData :: transfer_data where
  "demoData = \<lparr>fileId = Some (JStr ''newid1''), fileName = Some (JStr ''movie.mp4''),
               fileType = None, shareLink = JStr ''https://pan.quark.cn/s/newlink''\<rparr>"

definition demoPanel :: "unit panel" where
  "demoPanel =
     \<lparr>svcGetFileInfo = (\<lambda>url. ret None),
      svcStore = (\<lambda>link.
        if link = ''https://pan.quark.cn/s/linkA''
        then ret \<lparr>success = True, message = ''ok'', data = Some demoData\<rparr>
        else if link = ''https://pan.quark.cn/s/linkB''
        then throw (Exn ''Error'' ''boom'')
        else ret \<lparr>success = False, message = ''no token'', data = None\<rparr>),
      dbCheckDuplicate = (\<lambda>name link.
        ret \<lparr>exists = False, duplicateType = DupNone, nameExists = False,
             linkExists = False\<rparr>),
      dbInsertFile = (\<lambda>a b c d. ret ()),
      defaultCookie = (\<lambda>s. ''cookie''),
      delay = (\<lambda>ms s. s)\<rparr>"

section \<open>Relations between computations\<close>


text \<open>Every value that the computation returns (rather than throws) satisfies \<open>P\<close>.\<close>

definition returnsOnly :: "('a \<Rightarrow> bool) \<Rightarrow> ('s, 'a) eff \<Rightarrow> bool" where
  "returnsOnly P m = (\<forall>s a s'. m s = (Inr a, s') \<longrightarrow> P a)"

text \<open>The store of the duplicate-check scenario: one record with a name and a link.\<close>

definition recA :: file_record where
  "recA = \<lparr>rec_fileName = Some ''A.mp4'', rec_shareLink = Some ''L1'',
            rec_shareUrl = None, rec_originalUrl = None\<rparr>"

text \<open>\<^verbatim>\<open>this.db\<close> is still null (\<^verbatim>\<open>init()\<close> has not run or has failed).\<close>

definition dbNull :: idb_faults where
  "dbNull =
     \<lparr>throws = (\<lambda>op. if op = OpTransaction
                      then Some (Exn ''TypeError''
                             ''Cannot read properties of null (reading 'transaction')'')
                      else None),
      fails = (\<lambda>_. False)\<rparr>"

section \<open>LinkParser: properties\<close>

lemma matchIdAt_slash:
  "matchIdAt (CHR ''/'' # CHR ''s'' # CHR ''/'' # rest) =
     (if takeWhile isWordChar rest = [] then None else Some (takeWhile isWordChar rest))"
  by (simp add: matchIdAt_def Let_def)

text \<open>No suffix of the fixed prefix starts a match before its own \<^verbatim>\<open>/s/\<close>.\<close>

lemma searchId_sharePrefix:
  "takeWhile isWordChar rest \<noteq> [] \<Longrightarrow>
   searchId (sharePrefix @ rest) = Some (takeWhile isWordChar rest)"
  by (simp add: sharePrefix_def matchIdAt_def)

lemma searchId_valid:
  assumes "isValidQuarkUrl url"
  shows "searchId url = Some (takeWhile isWordChar (drop (length sharePrefix) url))"
proof -
  from assms have p: "take (length sharePrefix) url = sharePrefix"
    and w: "takeWhile isWordChar (drop (length sharePrefix) url) \<noteq> []"
    by (simp_all add: isValidQuarkUrl_def)
  have "sharePrefix @ drop (length sharePrefix) url = url"
    using p append_take_drop_id [of "length sharePrefix" url] by simp
  with searchId_sharePrefix [OF w] show ?thesis by simp
qed

lemma searchId_Some_nonempty: "searchId s = Some w \<Longrightarrow> w \<noteq> []"
  by (induction s) (auto simp: matchIdAt_def Let_def split: option.splits if_splits)

lemma searchId_None_iff:
  "searchId s = None \<longleftrightarrow> (\<forall>i < length s. matchIdAt (drop i s) = None)"
proof (induction s)
  case Nil
  then show ?case by simp
next
  case (Cons a s)
  have "(\<forall>i < length (a # s). matchIdAt (drop i (a # s)) = None) \<longleftrightarrow>
        matchIdAt (a # s) = None \<and> (\<forall>i < length s. matchIdAt (drop i s) = None)"
    by (auto simp: less_Suc_eq_0_disj)
  with Cons show ?case by (auto split: option.splits)
qed

lemma valid_abc123: "isValidQuarkUrl ''https://pan.quark.cn/s/abc123''"
  by (simp add: isValidQuarkUrl_def sharePrefix_def isWordChar_def)

lemma no_match_Cons:
  "(\<forall>j < length (a # p). matchIdAt (drop j ((a # p) @ s)) = None) \<longleftrightarrow>
   matchIdAt (a # p @ s) = None \<and> (\<forall>j < length p. matchIdAt (drop j (p @ s)) = None)"
  by (auto simp: less_Suc_eq_0_disj)

lemma searchId_leftmost:
  "(\<forall>j < length pre. matchIdAt (drop j (pre @ s)) = None) \<Longrightarrow>
   searchId (pre @ s) = searchId s"
proof (induction pre)
  case Nil
  then show ?case by simp
next
  case (Cons a pre)
  from Cons.prems have h: "matchIdAt (a # pre @ s) = None"
    and t: "\<forall>j < length pre. matchIdAt (drop j (pre @ s)) = None"
    using no_match_Cons [of a pre s] by simp_all
  from h Cons.IH [OF t] show ?case by simp
qed

lemma searchId_at_slash:
  "takeWhile isWordChar rest \<noteq> [] \<Longrightarrow>
   searchId (''/s/'' @ rest) = Some (takeWhile isWordChar rest)"
  by (simp add: matchIdAt_slash)

lemma getIdFromUrl_leftmost:
  assumes "\<forall>j < length pre. matchIdAt (drop j (pre @ ''/s/'' @ rest)) = None"
    and "takeWhile isWordChar rest \<noteq> []"
  shows "getIdFromUrl (pre @ ''/s/'' @ rest) = takeWhile isWordChar rest"
  using searchId_leftmost [OF assms(1)] searchId_at_slash [OF assms(2)]
  by (simp add: getIdFromUrl_def)

lemma wordChar_not_delimiter:
  "isWordChar c \<Longrightarrow> c \<noteq> CHR ''/'' \<and> c \<noteq> CHR ''?'' \<and> c \<noteq> CHR ''#''"
  by (auto simp add: isWordChar_def)

lemma takeWhile_word_segment:
  assumes "\<forall>c \<in> set (takeWhile D r). W c" and imp: "\<And>c. W c \<Longrightarrow> D c"
  shows "takeWhile W r = takeWhile D r"
  using assms(1)
proof (induction r)
  case Nil
  show ?case by simp
next
  case (Cons a r)
  show ?case
  proof (cases "D a")
    case True
    with Cons.prems have wa: "W a" and rest: "\<forall>c \<in> set (takeWhile D r). W c"
      by simp_all
    from Cons.IH [OF rest] have "takeWhile W r = takeWhile D r" .
    with True wa show ?thesis by simp
  next
    case False
    with imp [of a] have "\<not> W a" by blast
    with False show ?thesis by simp
  qed
qed

lemma id_is_segment_iff:
  assumes "isValidQuarkUrl url"
  shows "getIdFromUrl url = specPathSegment url \<longleftrightarrow>
         (\<forall>c \<in> set (specPathSegment url). isWordChar c)"
proof
  assume "getIdFromUrl url = specPathSegment url"
  then have e: "specPathSegment url = takeWhile isWordChar (drop (length sharePrefix) url)"
    using assms by (simp add: getIdFromUrl_def searchId_valid)
  show "\<forall>c \<in> set (specPathSegment url). isWordChar c"
  proof
    fix c
    assume "c \<in> set (specPathSegment url)"
    then have "c \<in> set (takeWhile isWordChar (drop (length sharePrefix) url))"
      by (simp only: e)
    then show "isWordChar c"
      by (rule set_takeWhileD [THEN conjunct2])
  qed
next
  assume a: "\<forall>c \<in> set (specPathSegment url). isWordChar c"
  let ?D = "\<lambda>c. c \<noteq> CHR ''/'' \<and> c \<noteq> CHR ''?'' \<and> c \<noteq> CHR ''#''"
  from a have "\<forall>c \<in> set (takeWhile ?D (drop (length sharePrefix) url)). isWordChar c"
    by (simp only: specPathSegment_def)
  then have "takeWhile isWordChar (drop (length sharePrefix) url) =
      takeWhile ?D (drop (length sharePrefix) url)"
    by (rule takeWhile_word_segment) (rule wordChar_not_delimiter)
  then have "takeWhile isWordChar (drop (length sharePrefix) url) = specPathSegment url"
    by (simp only: specPathSegment_def)
  with assms show "getIdFromUrl url = specPathSegment url"
    by (simp add: getIdFromUrl_def searchId_valid)
qed

lemma pre_example:
  "\<forall>j < length ''http://example.com''.
      matchIdAt (drop j (''http://example.com'' @ ''/s/'' @ ''abc'')) = None"
  by (simp only: no_match_Cons) (simp add: matchIdAt_def)

text \<open>
  C7, as stated, fails in both halves: a string that does not have the canonical shape
  (another scheme and host) still yields an identifier, not a null or empty result;
  and for a string of the canonical shape whose path segment after \<^verbatim>\<open>/s/\<close> is
  \<^verbatim>\<open>abc-def\<close> the result is \<^verbatim>\<open>abc\<close>, not the segment.
\<close>

theorem getIdFromUrl_noncanonical_counterexample:
  "\<not> isValidQuarkUrl ''http://example.com/s/abc'' \<and>
   getIdFromUrl ''http://example.com/s/abc'' = ''abc'' \<and>
   isValidQuarkUrl ''https://pan.quark.cn/s/abc-def'' \<and>
   specPathSegment ''https://pan.quark.cn/s/abc-def'' = ''abc-def'' \<and>
   getIdFromUrl ''https://pan.quark.cn/s/abc-def'' = ''abc''"
  by (simp add: isValidQuarkUrl_def sharePrefix_def getIdFromUrl_def matchIdAt_def
      isWordChar_def specPathSegment_def)

text \<open>
  C7 (amended): on every string accepted by \<open>isValidQuarkUrl\<close>, \<open>getIdFromUrl\<close> returns
  the maximal, non-empty run of word characters right after the leading
  \<^verbatim>\<open>https://pan.quark.cn/s/\<close>, which is the path segment after \<^verbatim>\<open>/s/\<close> exactly when
  that segment consists of word characters only. On any string, whatever its scheme and
  host, it returns the maximal run of word characters after the leftmost \<^verbatim>\<open>/s/\<close>
  that a word character follows; and it returns the empty string (the no-match value of
  the source, which has no null) exactly when no position of the string starts
  \<^verbatim>\<open>/s/\<close> followed by a word character.
\<close>

theorem getIdFromUrl_spec:
  "(isValidQuarkUrl url \<longrightarrow>
      getIdFromUrl url = takeWhile isWordChar (drop (length sharePrefix) url)
      \<and> getIdFromUrl url \<noteq> []
      \<and> (getIdFromUrl url = specPathSegment url
           \<longleftrightarrow> (\<forall>c \<in> set (specPathSegment url). isWordChar c)))
   \<and> ((\<forall>j < length pre. matchIdAt (drop j (pre @ ''/s/'' @ rest)) = None)
        \<and> takeWhile isWordChar rest \<noteq> [] \<longrightarrow>
        getIdFromUrl (pre @ ''/s/'' @ rest) = takeWhile isWordChar rest)
   \<and> (getIdFromUrl url = [] \<longleftrightarrow> (\<forall>i < length url. matchIdAt (drop i url) = None))"
proof (intro conjI impI)
  assume v: "isValidQuarkUrl url"
  then show "getIdFromUrl url = takeWhile isWordChar (drop (length sharePrefix) url)"
    by (simp add: getIdFromUrl_def searchId_valid)
  with v show "getIdFromUrl url \<noteq> []"
    by (simp add: isValidQuarkUrl_def)
  from v show "getIdFromUrl url = specPathSegment url
      \<longleftrightarrow> (\<forall>c \<in> set (specPathSegment url). isWordChar c)"
    by (rule id_is_segment_iff)
next
  assume "(\<forall>j < length pre. matchIdAt (drop j (pre @ ''/s/'' @ rest)) = None)
      \<and> takeWhile isWordChar rest \<noteq> []"
  then show "getIdFromUrl (pre @ ''/s/'' @ rest) = takeWhile isWordChar rest"
    using getIdFromUrl_leftmost [of pre rest] by blast
next
  show "getIdFromUrl url = [] \<longleftrightarrow> (\<forall>i < length url. matchIdAt (drop i url) = None)"
  proof (cases "searchId url")
    case None
    then show ?thesis
      using searchId_None_iff [of url] by (simp add: getIdFromUrl_def)
  next
    case (Some w)
    then have "getIdFromUrl url \<noteq> []"
      using searchId_Some_nonempty [of url w] by (simp add: getIdFromUrl_def)
    moreover have "\<not> (\<forall>i < length url. matchIdAt (drop i url) = None)"
      using Some searchId_None_iff [of url] by simp
    ultimately show ?thesis by simp
  qed
qed

theorem getIdFromUrl_spec_witness:
  "isValidQuarkUrl ''https://pan.quark.cn/s/abc123'' \<and>
   getIdFromUrl ''https://pan.quark.cn/s/abc123'' = ''abc123'' \<and>
   specPathSegment ''https://pan.quark.cn/s/abc123'' = ''abc123'' \<and>
   getIdFromUrl ''http://example.com/s/abc'' = ''abc'' \<and>
   getIdFromUrl ''no share link here'' = []"
proof -
  note t = getIdFromUrl_spec [of "''https://pan.quark.cn/s/abc123''" "''http://example.com''"
      "''abc''"]
  have g: "specPathSegment ''https://pan.quark.cn/s/abc123'' = ''abc123''"
    by (simp add: specPathSegment_def sharePrefix_def)
  have w: "\<forall>c \<in> set (specPathSegment ''https://pan.quark.cn/s/abc123''). isWordChar c"
    by (simp add: g isWordChar_def)
  note a = t [THEN conjunct1, THEN mp, OF valid_abc123]
  from a [THEN conjunct2, THEN conjunct2, THEN iffD2, OF w]
  have "getIdFromUrl ''https://pan.quark.cn/s/abc123'' =
        specPathSegment ''https://pan.quark.cn/s/abc123''" .
  then have 1: "getIdFromUrl ''https://pan.quark.cn/s/abc123'' = ''abc123''"
    by (simp only: g)
  have r: "takeWhile isWordChar ''abc'' = ''abc''"
    by (simp add: isWordChar_def)
  then have n: "takeWhile isWordChar ''abc'' \<noteq> []"
    by simp
  from t [THEN conjunct2, THEN conjunct1, THEN mp, OF conjI, OF pre_example n]
  have "getIdFromUrl (''http://example.com'' @ ''/s/'' @ ''abc'') = takeWhile isWordChar ''abc''" .
  then have "getIdFromUrl (''http://example.com'' @ ''/s/'' @ ''abc'') = ''abc''"
    by (simp only: r)
  then have 2: "getIdFromUrl ''http://example.com/s/abc'' = ''abc''"
    by simp
  have 3: "getIdFromUrl ''no share link here'' = []"
    by (simp add: getIdFromUrl_def matchIdAt_def)
  from valid_abc123 1 g 2 3 show ?thesis by (simp only: simp_thms)
qed

text \<open>
  C8: wherever \<open>isValidQuarkUrl\<close> holds, \<open>getIdFromUrl\<close> returns a non-empty
  identifier (the source has no null: its no-match value is the empty string, which
  the callers test with \<^verbatim>\<open>!pwdId\<close>).
\<close>

theorem isValidQuarkUrl_getIdFromUrl_consistent:
  "isValidQuarkUrl url \<Longrightarrow> getIdFromUrl url \<noteq> []"
  using searchId_Some_nonempty [OF searchId_valid, of url]
  by (simp add: getIdFromUrl_def searchId_valid)

theorem isValidQuarkUrl_getIdFromUrl_consistent_witness:
  "isValidQuarkUrl ''https://pan.quark.cn/s/abc123'' \<and>
   getIdFromUrl ''https://pan.quark.cn/s/abc123'' \<noteq> []"
  using isValidQuarkUrl_getIdFromUrl_consistent [OF valid_abc123] valid_abc123 by simp


section \<open>DuplicateIndex: properties\<close>



lemma fileExists_noFaults:
  "''fileName'' \<in> set (indexNames db) \<Longrightarrow>
   fileExists db noFaults n = Inr (indexGet db ''fileName'' n)"
  by (simp add: fileExists_def noFaults_def openIndex_def)

lemma checkWithIndex_noFaults:
  "checkWithIndex db noFaults l ix = Inr (ix \<in> set (indexNames db) \<and> indexGet db ix l)"
  by (simp add: checkWithIndex_def noFaults_def)

lemma indexGet_scanAll:
  "ix \<in> {''shareLink'', ''shareUrl'', ''originalUrl''} \<Longrightarrow> indexGet db ix l \<Longrightarrow> scanAll db l"
  by (auto simp: indexGet_def scanAll_def keyField_def list_ex_iff)

text \<open>Without faults the link lookup is the scan: an index hit implies a scan hit.\<close>

lemma fileExistsByShareLink_noFaults:
  "fileExistsByShareLink db noFaults l = Inr (scanAll db l)"
proof -
  have t: "throws noFaults OpTransaction = None" "throws noFaults OpGetAll = None"
    "\<not> fails noFaults OpGetAll"
    by (simp_all add: noFaults_def)
  show ?thesis
    using indexGet_scanAll [of "''shareLink''" db l] indexGet_scanAll [of "''shareUrl''" db l]
      indexGet_scanAll [of "''originalUrl''" db l]
    by (auto simp add: fileExistsByShareLink_def checkWithIndex_noFaults t)
qed

lemma checkDuplicate_noFaults:
  "''fileName'' \<in> set (indexNames db) \<Longrightarrow>
   checkDuplicate db noFaults noFaults n l =
     Inr \<lparr>exists = indexGet db ''fileName'' n \<or> scanAll db l,
          duplicateType = (if indexGet db ''fileName'' n
                           then (if scanAll db l then DupBoth else DupName)
                           else (if scanAll db l then DupLink else DupNone)),
          nameExists = indexGet db ''fileName'' n,
          linkExists = scanAll db l\<rparr>"
  by (simp add: checkDuplicate_def fileExists_noFaults fileExistsByShareLink_noFaults)

lemma checkDuplicate_exists:
  "checkDuplicate db fN fL n l = Inr v \<Longrightarrow> exists v = (nameExists v \<or> linkExists v)"
  by (auto simp: checkDuplicate_def split: sum.splits)

lemma fileName_in_v2Indexes: "''fileName'' \<in> set v2Indexes"
  by (simp add: v2Indexes_def)




text \<open>
  C4: over a store whose only record is \<^verbatim>\<open>{fileName: "A.mp4", shareLink: "L1"}\<close>, with
  the \<^verbatim>\<open>fileName\<close> index present and no fault, \<open>checkDuplicate\<close> classifies the four
  queries as name, link, both and none; and whenever \<open>checkDuplicate\<close> returns a
  verdict, on any store and under any faults, \<open>exists\<close> is the disjunction of
  \<open>nameExists\<close> and \<open>linkExists\<close>.
\<close>

theorem checkDuplicate_classifies:
  assumes "''fileName'' \<in> set ixs"
  shows "checkDuplicate \<lparr>indexNames = ixs, files = [recA]\<rparr> noFaults noFaults ''A.mp4'' ''L2'' =
           Inr \<lparr>exists = True, duplicateType = DupName, nameExists = True, linkExists = False\<rparr>
       \<and> checkDuplicate \<lparr>indexNames = ixs, files = [recA]\<rparr> noFaults noFaults ''B.mp4'' ''L1'' =
           Inr \<lparr>exists = True, duplicateType = DupLink, nameExists = False, linkExists = True\<rparr>
       \<and> checkDuplicate \<lparr>indexNames = ixs, files = [recA]\<rparr> noFaults noFaults ''A.mp4'' ''L1'' =
           Inr \<lparr>exists = True, duplicateType = DupBoth, nameExists = True, linkExists = True\<rparr>
       \<and> checkDuplicate \<lparr>indexNames = ixs, files = [recA]\<rparr> noFaults noFaults ''C'' ''L3'' =
           Inr \<lparr>exists = False, duplicateType = DupNone, nameExists = False,
                linkExists = False\<rparr>
       \<and> (checkDuplicate db fName fLink name link = Inr v \<longrightarrow>
            exists v = (nameExists v \<or> linkExists v))"
  using assms checkDuplicate_exists [of db fName fLink name link v]
  by (simp add: checkDuplicate_noFaults indexGet_def scanAll_def keyField_def recA_def)

theorem checkDuplicate_classifies_witness:
  "''fileName'' \<in> set v2Indexes \<and>
   checkDuplicate \<lparr>indexNames = v2Indexes, files = [recA]\<rparr> noFaults noFaults ''A.mp4'' ''L2'' =
     Inr \<lparr>exists = True, duplicateType = DupName, nameExists = True, linkExists = False\<rparr> \<and>
   checkDuplicate \<lparr>indexNames = v2Indexes, files = [recA]\<rparr> noFaults noFaults ''B.mp4'' ''L1'' =
     Inr \<lparr>exists = True, duplicateType = DupLink, nameExists = False, linkExists = True\<rparr> \<and>
   checkDuplicate \<lparr>indexNames = v2Indexes, files = [recA]\<rparr> noFaults noFaults ''A.mp4'' ''L1'' =
     Inr \<lparr>exists = True, duplicateType = DupBoth, nameExists = True, linkExists = True\<rparr> \<and>
   checkDuplicate \<lparr>indexNames = v2Indexes, files = [recA]\<rparr> noFaults noFaults ''C'' ''L3'' =
     Inr \<lparr>exists = False, duplicateType = DupNone, nameExists = False, linkExists = False\<rparr> \<and>
   checkDuplicate \<lparr>indexNames = v2Indexes, files = [recA]\<rparr> noFaults dbNull ''B.mp4'' ''L1'' =
     Inr \<lparr>exists = False, duplicateType = DupNone, nameExists = False, linkExists = False\<rparr>"
proof -
  let ?db = "\<lparr>indexNames = v2Indexes, files = [recA]\<rparr>"
  let ?v = "\<lparr>exists = False, duplicateType = DupNone, nameExists = False, linkExists = False\<rparr>"
  have d: "checkDuplicate ?db noFaults dbNull ''B.mp4'' ''L1'' = Inr ?v"
    by (simp add: checkDuplicate_def fileExists_noFaults fileName_in_v2Indexes
        fileExistsByShareLink_def dbNull_def indexGet_def keyField_def recA_def)
  from checkDuplicate_classifies [OF fileName_in_v2Indexes,
      of ?db noFaults dbNull "''B.mp4''" "''L1''" ?v] fileName_in_v2Indexes d
  show ?thesis by simp
qed

section \<open>TransferProtocolClient: the scenario of one transfer\<close>

lemma request_loop_le:
  "attempt \<le> retries \<Longrightarrow> request_loop env req retries attempt lastError w =
      (case attemptOnce env req w of
              (Inr j, w') \<Rightarrow> (Inr j, w')
            | (Inl error, w') \<Rightarrow>
                request_loop env req retries (attempt + 1) (Some error)
                  (if attempt < retries
                   then sleep env (min (1000 * 2 ^ (attempt - 1)) 5000) w'
                   else w'))"
  by (subst request_loop.simps) simp

lemma request_loop_gt:
  "retries < attempt \<Longrightarrow> request_loop env req retries attempt (Some e) w = (Inl e, w)"
  by (subst request_loop.simps) simp

lemma request_unfold:
  "request env req w =
     (case attemptOnce env req w of
        (Inr j, w1) \<Rightarrow> (Inr j, w1)
      | (Inl e1, w1) \<Rightarrow>
          (case attemptOnce env req (sleep env 1000 w1) of
             (Inr j, w2) \<Rightarrow> (Inr j, w2)
           | (Inl e2, w2) \<Rightarrow>
               (case attemptOnce env req (sleep env 2000 w2) of
                  (Inr j, w3) \<Rightarrow> (Inr j, w3)
                | (Inl e3, w3) \<Rightarrow> (Inl e3, w3))))"
  by (simp add: request_def request_loop_le request_loop_gt split: prod.split sum.split)

lemma request_first_ok:
  "attemptOnce env req w = (Inr j, w') \<Longrightarrow> request env req w = (Inr j, w')"
  by (simp add: request_unfold)

lemma attemptOnce_okJson:
  "fetch env req w = (okJson j, w') \<Longrightarrow> attemptOnce env req w = (Inr j, w')"
  by (simp add: attemptOnce_def okJson_def ok_def)

lemma request_okJson:
  "fetch env req w = (okJson j, w') \<Longrightarrow> request env req w = (Inr j, w')"
  by (simp add: request_first_ok attemptOnce_okJson)

lemma id_abc123: "getIdFromUrl ''https://pan.quark.cn/s/abc123'' = ''abc123''"
  by (simp add: getIdFromUrl_def matchIdAt_def isWordChar_def)

lemma mock_request:
  "mockUpstream req = okJson j \<Longrightarrow> request mockEnv req w = (Inr j, w)"
  by (rule request_okJson) (simp add: mockEnv_def)

lemma mock_token: "getStoken mockEnv ''abc123'' w = (Inr (JStr ''tok1''), w)"
  by (simp add: getStoken_def tryCatch_def await_def ret_def
      mock_request [of _ "envelope [(''stoken'', JStr ''tok1'')]"] mockUpstream_def
      envelope_def optProp_def jsOr_def)

lemma mock_detail:
  "detail mockEnv ''abc123'' (JStr ''tok1'') w =
     (Inr (Some \<lparr>title = Some (JStr ''movie.mp4''), file_type = None, fid = Some (JStr ''f1''),
                 pdir_fid = None, share_fid_token = Some (JStr ''sft1'')\<rparr>), w)"
  by (simp add: detail_def tryCatch_def await_def ret_def liftE_def
      mock_request [of _ "envelope
                 [(''list'', JArr [JObj [(''file_name'', JStr ''movie.mp4''),
                                        (''fid'', JStr ''f1''),
                                        (''share_fid_token'', JStr ''sft1'')]])]"] mockUpstream_def
      envelope_def optProp_def strictProp_def elem0_def gtZero_def)


lemma task_loop_step:
  "i < maxTries \<Longrightarrow>
   task_loop env taskId maxTries i w =
     (case request env (TaskReq taskId i) w of
        (Inl error, w') \<Rightarrow> (Inl error, w')
      | (Inr response, w') \<Rightarrow>
          if truthy (optProps (Some response) [''data'', ''status''])
          then (Inr response, w')
          else task_loop env taskId maxTries (i + 1) (sleep env 1000 w'))"
  by (subst task_loop.simps) simp

lemma task_loop_end:
  "\<not> i < maxTries \<Longrightarrow> task_loop env taskId maxTries i w = (Inr JNull, w)"
  by (subst task_loop.simps) simp

lemma task_first_poll:
  assumes "request env (TaskReq taskId 0) w = (Inr response, w')"
    and "truthy (optProps (Some response) [''data'', ''status''])"
    and "0 < maxTries"
  shows "task env taskId maxTries w = (Inr response, w')"
  using assms by (simp add: task_def tryCatch_def task_loop_step)

lemma mock_save:
  "saveTaskId mockEnv ''abc123'' (JStr ''tok1'') (Some (JStr ''f1'')) (Some (JStr ''sft1'')) w =
     (Inr (JStr ''task1''), w)"
  by (simp add: saveTaskId_def tryCatch_def await_def ret_def
      mock_request [of _ "envelope [(''task_id'', JStr ''task1'')]"] mockUpstream_def
      envelope_def optProp_def jsOr_def)

lemma mock_task1:
  "task mockEnv (JStr ''task1'') 10 w =
     (Inr (envelope [(''status'', JNum 2),
                  (''save_as'', JObj [(''save_as_top_fids'', JArr [JStr ''newid1''])])]), w)"
  by (rule task_first_poll)
     (simp_all add: mock_request mockUpstream_def envelope_def optProp_def)

lemma mock_share:
  "shareTaskId mockEnv (Some (JStr ''newid1'')) (Some (JStr ''movie.mp4'')) w =
     (Inr (JStr ''task2''), w)"
  by (simp add: shareTaskId_def tryCatch_def await_def ret_def
      mock_request [of _ "envelope [(''task_id'', JStr ''task2'')]"] mockUpstream_def
      envelope_def optProp_def jsOr_def)

lemma mock_task2:
  "task mockEnv (JStr ''task2'') 10 w =
     (Inr (envelope [(''status'', JNum 2), (''share_id'', JStr ''sh1'')]), w)"
  by (rule task_first_poll)
     (simp_all add: mock_request mockUpstream_def envelope_def optProp_def)

lemma mock_link:
  "getShareLink mockEnv (Some (JStr ''sh1'')) w =
     (Inr (JStr ''https://pan.quark.cn/s/newlink''), w)"
  by (simp add: getShareLink_def tryCatch_def await_def ret_def
      mock_request [of _ "envelope [(''share_url'', JStr ''https://pan.quark.cn/s/newlink'')]"]
      mockUpstream_def envelope_def optProp_def jsOr_def)

lemmas mock_steps = id_abc123 mock_token mock_detail mock_save mock_task1 mock_share
  mock_task2 mock_link

lemmas eff_defs = tryCatch_def await_def ret_def throw_def liftE_def onWorld_def progress_def
  Let_def

text \<open>
  C1: against the mocked upstream (token \<^verbatim>\<open>tok1\<close>, the one-entry file list, a save
  job resolved with \<^verbatim>\<open>["newid1"]\<close>, a share job resolved with \<^verbatim>\<open>sh1\<close>, the share
  link), \<open>store\<close> on \<^verbatim>\<open>https://pan.quark.cn/s/abc123\<close> returns success with the new file
  id, the file name and the new share link; the file type is undefined, as the mocked
  entry has none.
\<close>

theorem store_end_to_end:
  "store mockEnv (None :: unit callback option) ''https://pan.quark.cn/s/abc123'' ((), ()) =
     (Inr \<lparr>success = True,
           message = msgStoreOk @ ''movie.mp4'',
           data = Some \<lparr>fileId = Some (JStr ''newid1''),
                        fileName = Some (JStr ''movie.mp4''),
                        fileType = None,
                        shareLink = JStr ''https://pan.quark.cn/s/newlink''\<rparr>\<rparr>,
      ((), ()))"
  by (simp add: store_def eff_defs mock_steps envelope_def optProp_def strictProp_def elem0_def
      tplStr_def)



section \<open>TransferProtocolClient: transport retries\<close>



lemma script_request: "request scriptEnv req (okJson j # rest) = (Inr j, rest)"
  by (rule request_okJson) (simp add: scriptEnv_def)




section \<open>TransferProtocolClient: job polling\<close>

lemma task_loop_script_skip:
  "\<forall>j \<in> set js. \<not> truthy (optProps (Some j) [''data'', ''status'']) \<Longrightarrow>
   i + length js \<le> maxTries \<Longrightarrow>
   task_loop scriptEnv taskId maxTries i (map okJson js @ rest) =
     task_loop scriptEnv taskId maxTries (i + length js) rest"
proof (induction js arbitrary: i)
  case Nil
  then show ?case by simp
next
  case (Cons j js)
  have s: "sleep scriptEnv 1000 = (\<lambda>w. w)" by (simp add: scriptEnv_def)
  from Cons.prems have "i < maxTries" by simp
  then have "task_loop scriptEnv taskId maxTries i (map okJson (j # js) @ rest) =
      task_loop scriptEnv taskId maxTries (i + 1) (map okJson js @ rest)"
    using Cons.prems(1) by (simp add: task_loop_step script_request s del: optProps.simps)
  also have "\<dots> = task_loop scriptEnv taskId maxTries (i + 1 + length js) rest"
    using Cons.prems by (intro Cons.IH) simp_all
  finally show ?case by simp
qed

lemma task_returns: "\<exists>r. fst (task env taskId maxTries w) = Inr r"
  by (simp add: task_def tryCatch_def ret_def split: prod.split sum.split)

lemma task_loop_result:
  "task_loop env taskId maxTries i w = (Inr r, w') \<Longrightarrow>
   r = JNull \<or> truthy (optProps (Some r) [''data'', ''status''])"
proof (induction env taskId maxTries i w rule: task_loop.induct)
  case (1 env taskId maxTries i w)
  show ?case
  proof (cases "i < maxTries")
    case False
    with "1.prems" show ?thesis by (simp add: task_loop_end)
  next
    case True
    show ?thesis
    proof (cases "request env (TaskReq taskId i) w")
      case (Pair res w1)
      show ?thesis
      proof (cases res)
        case (Inl e)
        with True Pair "1.prems" show ?thesis by (simp add: task_loop_step)
      next
        case (Inr response)
        show ?thesis
        proof (cases "truthy (optProps (Some response) [''data'', ''status''])")
          case t: True
          with True Pair Inr "1.prems" show ?thesis
            by (simp add: task_loop_step del: optProps.simps)
        next
          case f: False
          with True Pair Inr "1.prems"
          have "task_loop env taskId maxTries (i + 1) (sleep env 1000 w1) = (Inr r, w')"
            by (simp add: task_loop_step del: optProps.simps)
          with "1.IH" [OF True Pair [symmetric] Inr f] show ?thesis by simp
        qed
      qed
    qed
  qed
qed

text \<open>
  C5: against a scripted task endpoint, with the attempt cap 10: when the first nine
  polls are answered without a truthy \<^verbatim>\<open>data.status\<close> and the tenth with one,
  \<open>task\<close> returns the tenth response; when ten polls are answered without one, it
  returns null. In any environment \<open>task\<close> does not throw, and what it returns is null
  or a response with a truthy \<^verbatim>\<open>data.status\<close>.
\<close>

theorem task_polling:
  "(length js = 9 \<and> (\<forall>j \<in> set js. \<not> truthy (optProps (Some j) [''data'', ''status'']))
      \<and> truthy (optProps (Some r) [''data'', ''status'']) \<longrightarrow>
      task scriptEnv taskId 10 (map okJson js @ okJson r # rest) = (Inr r, rest))
   \<and> (length ks = 10 \<and> (\<forall>j \<in> set ks. \<not> truthy (optProps (Some j) [''data'', ''status''])) \<longrightarrow>
      task scriptEnv taskId 10 (map okJson ks @ rest) = (Inr JNull, rest))
   \<and> (\<exists>res. fst (task env taskId maxTries w) = Inr res
          \<and> (res = JNull \<or> truthy (optProps (Some res) [''data'', ''status''])))"
proof (intro conjI impI)
  assume a: "length js = 9 \<and> (\<forall>j \<in> set js. \<not> truthy (optProps (Some j) [''data'', ''status'']))
      \<and> truthy (optProps (Some r) [''data'', ''status''])"
  then have "task_loop scriptEnv taskId 10 0 (map okJson js @ okJson r # rest) =
      task_loop scriptEnv taskId 10 (0 + length js) (okJson r # rest)"
    by (intro task_loop_script_skip) simp_all
  also have "\<dots> = (Inr r, rest)"
    using a by (simp add: task_loop_step script_request del: optProps.simps)
  finally show "task scriptEnv taskId 10 (map okJson js @ okJson r # rest) = (Inr r, rest)"
    by (simp add: task_def tryCatch_def)
next
  assume a: "length ks = 10
      \<and> (\<forall>j \<in> set ks. \<not> truthy (optProps (Some j) [''data'', ''status'']))"
  then have "task_loop scriptEnv taskId 10 0 (map okJson ks @ rest) =
      task_loop scriptEnv taskId 10 (0 + length ks) rest"
    by (intro task_loop_script_skip) simp_all
  also have "\<dots> = (Inr JNull, rest)"
    using a by (simp add: task_loop_end)
  finally show "task scriptEnv taskId 10 (map okJson ks @ rest) = (Inr JNull, rest)"
    by (simp add: task_def tryCatch_def)
next
  obtain x w' where l: "task_loop env taskId maxTries 0 w = (x, w')"
    by (metis surjective_pairing)
  show "\<exists>res. fst (task env taskId maxTries w) = Inr res
          \<and> (res = JNull \<or> truthy (optProps (Some res) [''data'', ''status'']))"
  proof (cases x)
    case (Inl e)
    with l show ?thesis by (simp add: task_def tryCatch_def ret_def)
  next
    case (Inr res)
    with l task_loop_result [of env taskId maxTries 0 w res w'] show ?thesis
      by (simp add: task_def tryCatch_def del: optProps.simps)
  qed
qed

theorem task_polling_witness:
  "task scriptEnv (JStr ''task1'') 10
     (map okJson (replicate 9 (envelope [])) @ [okJson (envelope [(''status'', JNum 2)])]) =
     (Inr (envelope [(''status'', JNum 2)]), []) \<and>
   task scriptEnv (JStr ''task1'') 10 (map okJson (replicate 10 (envelope []))) =
     (Inr JNull, [])"
proof -
  have n: "\<not> truthy (optProps (Some (envelope [])) [''data'', ''status''])"
    by (simp add: envelope_def optProp_def)
  have y: "truthy (optProps (Some (envelope [(''status'', JNum 2)])) [''data'', ''status''])"
    by (simp add: envelope_def optProp_def)
  note t = task_polling [of "replicate 9 (envelope [])" "envelope [(''status'', JNum 2)]"
      "JStr ''task1''" "[]" "replicate 10 (envelope [])" scriptEnv 10 "[]"]
  from t n y have "task scriptEnv (JStr ''task1'') 10
     (map okJson (replicate 9 (envelope [])) @ [okJson (envelope [(''status'', JNum 2)])]) =
     (Inr (envelope [(''status'', JNum 2)]), [])"
    by (simp del: optProps.simps replicate.simps map_replicate)
  moreover from t n have "task scriptEnv (JStr ''task1'') 10
      (map okJson (replicate 10 (envelope []))) = (Inr JNull, [])"
    by (simp del: optProps.simps replicate.simps map_replicate)
  ultimately show ?thesis by simp
qed

section \<open>TransferProtocolClient: the progress callback\<close>




















section \<open>TransferProtocolClient: \<open>store\<close> always returns an outcome\<close>

lemma ro_await: "(\<And>a. returnsOnly P (k a)) \<Longrightarrow> returnsOnly P (await m k)"
  by (auto simp add: returnsOnly_def await_def split: prod.splits sum.splits)

lemma ro_throw: "returnsOnly P (throw e)"
  by (simp add: returnsOnly_def throw_def)

lemma ro_ret: "P a \<Longrightarrow> returnsOnly P (ret a)"
  by (simp add: returnsOnly_def ret_def)

lemma ro_if: "(b \<Longrightarrow> returnsOnly P m) \<Longrightarrow> (\<not> b \<Longrightarrow> returnsOnly P n) \<Longrightarrow>
   returnsOnly P (if b then m else n)"
  by simp

lemma ro_case_option:
  "(x = None \<Longrightarrow> returnsOnly P m) \<Longrightarrow> (\<And>d. x = Some d \<Longrightarrow> returnsOnly P (k d)) \<Longrightarrow>
   returnsOnly P (case x of None \<Rightarrow> m | Some d \<Rightarrow> k d)"
  by (cases x) simp_all

lemmas ro_rules = ro_await ro_throw ro_ret ro_if ro_case_option

lemma progress_quiet:
  "(\<And>f. cb = Some f \<Longrightarrow> (\<forall>step msg percent c. fst (f step msg percent c) = None)) \<Longrightarrow>
   \<exists>s'. progress cb step msg percent s = (Inr (), s')"
proof (cases cb)
  case None
  then show ?thesis by (simp add: progress_def)
next
  case (Some f)
  assume "\<And>f. cb = Some f \<Longrightarrow> (\<forall>step msg percent c. fst (f step msg percent c) = None)"
  with Some have "\<exists>c'. f step msg percent (snd s) = (None, c')"
    by (metis prod.collapse)
  with Some show ?thesis by (auto simp add: progress_def)
qed

text \<open>
  C10: for every URL, environment and state, when the progress callback is absent or
  never throws, \<open>store\<close> does not throw: it returns an outcome (a boolean \<open>success\<close>, a
  string \<open>message\<close>), which carries \<open>data\<close> exactly when \<open>success\<close> is true.
\<close>

theorem store_resolves:
  fixes env :: "'w env" and progressCallback :: "'c callback option" and s :: "'w \<times> 'c"
  assumes "\<forall>f. progressCallback = Some f \<longrightarrow> (\<forall>step msg percent c. fst (f step msg percent c) = None)"
  shows "\<exists>out. fst (store env progressCallback url s) = Inr out \<and> (success out \<longleftrightarrow> data out \<noteq> None)"
proof -
  let ?P = "\<lambda>out. success out \<and> data out \<noteq> None"
  define body :: "('w \<times> 'c, outcome) eff \<Rightarrow> ('w \<times> 'c, outcome) eff"
    where "body = (\<lambda>h. tryCatch h (\<lambda>error.
          await (progress progressCallback (- 1) (msgStoreFailed @ exnMessage error) 0) (\<lambda>_.
            ret \<lparr>success = False, message = msgStoreFailed @ exnMessage error, data = None\<rparr>)))"
  have q: "\<And>step msg percent s. \<exists>s'. progress progressCallback step msg percent s = (Inr (), s')"
    using assms by (intro progress_quiet) simp
  have h: "\<And>m. returnsOnly ?P m \<Longrightarrow> \<exists>out. fst (body m s) = Inr out \<and> (success out \<longleftrightarrow> data out \<noteq> None)"
  proof -
    fix m :: "('w \<times> 'c, outcome) eff"
    assume ro: "returnsOnly ?P m"
    obtain r s1 where m: "m s = (r, s1)" by (metis surjective_pairing)
    show "\<exists>out. fst (body m s) = Inr out \<and> (success out \<longleftrightarrow> data out \<noteq> None)"
    proof (cases r)
      case (Inl e)
      obtain s2 where "progress progressCallback (- 1) (msgStoreFailed @ exnMessage e) 0 s1 = (Inr (), s2)"
        using q by blast
      with m Inl show ?thesis by (simp add: body_def tryCatch_def await_def ret_def)
    next
      case (Inr a)
      with m ro have "?P a" unfolding returnsOnly_def by blast
      with m Inr show ?thesis by (simp add: body_def tryCatch_def)
    qed
  qed
  show ?thesis
    unfolding store_def Let_def
    by (rule h [unfolded body_def]) (intro ro_rules, simp)
qed

theorem store_resolves_witness:
  "(\<forall>step msg percent c. fst (quietCallback step msg percent c) = None) \<and>
   (\<exists>out. fst (store scriptEnv (Some quietCallback) ''https://pan.quark.cn/s/abc123''
                 ([], ())) = Inr out
          \<and> success out = (data out \<noteq> None))"
proof -
  have q: "\<forall>step msg percent c. fst (quietCallback step msg percent c) = None"
    by (simp add: quietCallback_def)
  then have "\<forall>f. Some quietCallback = Some f \<longrightarrow>
        (\<forall>step msg percent c. fst (f step msg percent c) = None)"
    by simp
  from store_resolves [OF this, of scriptEnv "''https://pan.quark.cn/s/abc123''" "([], ())"] q
  show ?thesis by blast
qed


section \<open>BatchTransferController: one entry per link\<close>

lemma transferItemTry_link:
  "returnsOnly (\<lambda>rt. br_link (fst rt) = link) (transferItemTry p link)"
  unfolding transferItemTry_def storeAndRecord_def
  by (intro ro_rules) (simp_all add: skippedEntry_def succeededEntry_def failedEntry_def)

lemma transferItem_caught:
  "transferItemTry p link s = (Inl e, s') \<Longrightarrow>
   transferItem p link s = (Inr (failedEntry link (exnMessage e), Failed), s')"
  by (simp add: transferItem_def tryCatch_def ret_def)

lemma transferItem_resolves:
  "\<exists>entry t s'. transferItem p link s = (Inr (entry, t), s') \<and> br_link entry = link"
proof -
  obtain x s' where x: "transferItemTry p link s = (x, s')"
    by (metis surjective_pairing)
  show ?thesis
  proof (cases x)
    case (Inl e)
    with x show ?thesis
      by (simp add: transferItem_caught failedEntry_def)
  next
    case (Inr rt)
    with x transferItemTry_link [of link p] have "br_link (fst rt) = link"
      unfolding returnsOnly_def by blast
    with x Inr show ?thesis
      by (cases rt) (simp add: transferItem_def tryCatch_def)
  qed
qed

lemma pushEntry_results: "batchResults (pushEntry (entry, t) b) = batchResults b @ [entry]"
  by (cases t) (simp_all add: pushEntry_def)

lemma pushEntry_counts:
  "successCount (pushEntry (entry, t) b) + failCount (pushEntry (entry, t) b)
     + skipCount (pushEntry (entry, t) b) =
   successCount b + failCount b + skipCount b + 1"
  by (cases t) (simp_all add: pushEntry_def)

lemma batch_loop_all:
  "\<exists>b' s'. batch_loop p totalLinks i links b s = (Inr b', s')
      \<and> map br_link (batchResults b') = map br_link (batchResults b) @ links
      \<and> successCount b' + failCount b' + skipCount b' =
          successCount b + failCount b + skipCount b + length links"
proof (induction links arbitrary: i b s)
  case Nil
  then show ?case by simp
next
  case (Cons link links)
  obtain entry t s1 where it: "transferItem p link s = (Inr (entry, t), s1)"
    and l: "br_link entry = link"
    using transferItem_resolves [of p link s] by blast
  let ?s = "if t \<noteq> Skipped \<and> i < totalLinks - 1 then delay p 1000 s1 else s1"
  from Cons.IH [of "i + 1" "pushEntry (entry, t) b" ?s]
  obtain b' s' where
    r: "batch_loop p totalLinks (i + 1) links (pushEntry (entry, t) b) ?s = (Inr b', s')"
    and m: "map br_link (batchResults b') =
            map br_link (batchResults (pushEntry (entry, t) b)) @ links"
    and c: "successCount b' + failCount b' + skipCount b' =
            successCount (pushEntry (entry, t) b) + failCount (pushEntry (entry, t) b)
            + skipCount (pushEntry (entry, t) b) + length links"
    by blast
  from it r have "batch_loop p totalLinks i (link # links) b s = (Inr b', s')"
    by simp
  moreover from m l have "map br_link (batchResults b') =
      map br_link (batchResults b) @ link # links"
    by (simp add: pushEntry_results)
  moreover from c have "successCount b' + failCount b' + skipCount b' =
      successCount b + failCount b + skipCount b + length (link # links)"
    by (simp add: pushEntry_counts)
  ultimately show ?case by blast
qed

lemma batch_loop_three:
  assumes a: "transferItem p linkA s0 = (Inr (ra, ta), s1)"
    and b: "transferItemTry p linkB (if ta \<noteq> Skipped then delay p 1000 s1 else s1) = (Inl e, s2)"
    and c: "transferItem p linkC (delay p 1000 s2) = (Inr (rc, tc), s3)"
  shows "batch_loop p 3 0 [linkA, linkB, linkC] emptyBatch s0 =
     (Inr (pushEntry (rc, tc) (pushEntry (failedEntry linkB (exnMessage e), Failed)
             (pushEntry (ra, ta) emptyBatch))), s3)"
  using a transferItem_caught [OF b] c by simp

lemma handleBatchTransfer_all:
  assumes "detectedLinks \<noteq> []" and "defaultCookie p s \<noteq> []"
  shows "\<exists>b'. fst (handleBatchTransfer p detectedLinks s) = Inr (Some b')
      \<and> map br_link (batchResults b') = detectedLinks
      \<and> successCount b' + failCount b' + skipCount b' = length detectedLinks"
proof -
  obtain b' s' where
    "batch_loop p (length detectedLinks) 0 detectedLinks emptyBatch s = (Inr b', s')"
    and "map br_link (batchResults b') = map br_link (batchResults emptyBatch) @ detectedLinks"
    and "successCount b' + failCount b' + skipCount b' =
          successCount emptyBatch + failCount emptyBatch + skipCount emptyBatch
          + length detectedLinks"
    using batch_loop_all [of p "length detectedLinks" 0 detectedLinks emptyBatch s] by blast
  with assms show ?thesis
    by (simp add: handleBatchTransfer_def tryCatch_def await_def ret_def emptyBatch_def)
qed

lemma demo_A: "transferItem demoPanel ''https://pan.quark.cn/s/linkA'' () =
   (Inr (succeededEntry ''https://pan.quark.cn/s/linkA'' demoData, Succeeded), ())"
  by (simp add: transferItem_def transferItemTry_def storeAndRecord_def extractFileName_def demoPanel_def eff_defs
      jsOr_def)

lemma demo_B: "transferItemTry demoPanel ''https://pan.quark.cn/s/linkB'' () =
   (Inl (Exn ''Error'' ''boom''), ())"
  by (simp add: transferItemTry_def storeAndRecord_def extractFileName_def demoPanel_def eff_defs jsOr_def)

lemma demo_C: "transferItem demoPanel ''https://pan.quark.cn/s/linkC'' () =
   (Inr (failedEntry ''https://pan.quark.cn/s/linkC'' ''no token'', Failed), ())"
  by (simp add: transferItem_def transferItemTry_def storeAndRecord_def extractFileName_def demoPanel_def eff_defs
      jsOr_def)

text \<open>
  C6: the batch loop over any list of links, for any behaviour of the collaborators,
  does not throw and adds exactly one entry per link, in the order of the links, and
  one to exactly one of the three counters per link, so that the counters add up to the
  number of links. An exception in the body for a link becomes the failed entry of that
  link, with the message of the exception. For three links of which the second throws,
  the entries are the first link's own entry, the failed entry of the second and the
  third link's own entry. \<open>handleBatchTransfer\<close>, given links and a cookie, reports
  that state.
\<close>

theorem batch_transfer_outcomes:
  "(\<exists>b' s'. batch_loop p totalLinks i links b s = (Inr b', s')
       \<and> length (batchResults b') = length (batchResults b) + length links
       \<and> map br_link (batchResults b') = map br_link (batchResults b) @ links
       \<and> successCount b' + failCount b' + skipCount b' =
           successCount b + failCount b + skipCount b + length links)
   \<and> (transferItemTry p link s = (Inl e, s1) \<longrightarrow>
        transferItem p link s = (Inr (failedEntry link (exnMessage e), Failed), s1))
   \<and> (transferItem p linkA t0 = (Inr (ra, ta), t1)
        \<and> transferItemTry p linkB (if ta \<noteq> Skipped then delay p 1000 t1 else t1) = (Inl e', t2)
        \<and> transferItem p linkC (delay p 1000 t2) = (Inr (rc, tc), t3) \<longrightarrow>
        (\<exists>b3. batch_loop p 3 0 [linkA, linkB, linkC] emptyBatch t0 = (Inr b3, t3)
            \<and> batchResults b3 = [ra, failedEntry linkB (exnMessage e'), rc]))
   \<and> (detectedLinks \<noteq> [] \<and> defaultCookie p u \<noteq> [] \<longrightarrow>
        (\<exists>b'. fst (handleBatchTransfer p detectedLinks u) = Inr (Some b')
            \<and> length (batchResults b') = length detectedLinks
            \<and> map br_link (batchResults b') = detectedLinks
            \<and> successCount b' + failCount b' + skipCount b' = length detectedLinks))"
proof (intro conjI impI)
  obtain b' s' where l: "batch_loop p totalLinks i links b s = (Inr b', s')"
    and m: "map br_link (batchResults b') = map br_link (batchResults b) @ links"
    and c: "successCount b' + failCount b' + skipCount b' =
            successCount b + failCount b + skipCount b + length links"
    using batch_loop_all [of p totalLinks i links b s] by blast
  from m have "length (map br_link (batchResults b')) =
      length (map br_link (batchResults b) @ links)"
    by simp
  then have "length (batchResults b') = length (batchResults b) + length links"
    by simp
  with l m c show "\<exists>b' s'. batch_loop p totalLinks i links b s = (Inr b', s')
       \<and> length (batchResults b') = length (batchResults b) + length links
       \<and> map br_link (batchResults b') = map br_link (batchResults b) @ links
       \<and> successCount b' + failCount b' + skipCount b' =
           successCount b + failCount b + skipCount b + length links"
    by blast
next
  assume "transferItemTry p link s = (Inl e, s1)"
  then show "transferItem p link s = (Inr (failedEntry link (exnMessage e), Failed), s1)"
    by (rule transferItem_caught)
next
  assume a: "transferItem p linkA t0 = (Inr (ra, ta), t1)
        \<and> transferItemTry p linkB (if ta \<noteq> Skipped then delay p 1000 t1 else t1) = (Inl e', t2)
        \<and> transferItem p linkC (delay p 1000 t2) = (Inr (rc, tc), t3)"
  then have "batch_loop p 3 0 [linkA, linkB, linkC] emptyBatch t0 =
     (Inr (pushEntry (rc, tc) (pushEntry (failedEntry linkB (exnMessage e'), Failed)
             (pushEntry (ra, ta) emptyBatch))), t3)"
    using batch_loop_three [of p linkA t0 ra ta t1 linkB e' t2 linkC rc tc t3] by blast
  then show "\<exists>b3. batch_loop p 3 0 [linkA, linkB, linkC] emptyBatch t0 = (Inr b3, t3)
            \<and> batchResults b3 = [ra, failedEntry linkB (exnMessage e'), rc]"
    by (simp add: pushEntry_results emptyBatch_def)
next
  assume a: "detectedLinks \<noteq> [] \<and> defaultCookie p u \<noteq> []"
  then obtain b' where h: "fst (handleBatchTransfer p detectedLinks u) = Inr (Some b')"
    and m: "map br_link (batchResults b') = detectedLinks"
    and c: "successCount b' + failCount b' + skipCount b' = length detectedLinks"
    using handleBatchTransfer_all [of detectedLinks p u] by blast
  from m have "length (map br_link (batchResults b')) = length detectedLinks"
    by simp
  then have "length (batchResults b') = length detectedLinks"
    by simp
  with h m c show "\<exists>b'. fst (handleBatchTransfer p detectedLinks u) = Inr (Some b')
            \<and> length (batchResults b') = length detectedLinks
            \<and> map br_link (batchResults b') = detectedLinks
            \<and> successCount b' + failCount b' + skipCount b' = length detectedLinks"
    by blast
qed

theorem batch_transfer_outcomes_witness:
  "transferItemTry demoPanel ''https://pan.quark.cn/s/linkB'' () =
     (Inl (Exn ''Error'' ''boom''), ()) \<and>
   transferItem demoPanel ''https://pan.quark.cn/s/linkB'' () =
     (Inr (failedEntry ''https://pan.quark.cn/s/linkB'' ''boom'', Failed), ()) \<and>
   (\<exists>b3. batch_loop demoPanel 3 0
            [''https://pan.quark.cn/s/linkA'', ''https://pan.quark.cn/s/linkB'',
             ''https://pan.quark.cn/s/linkC''] emptyBatch () = (Inr b3, ())
        \<and> batchResults b3 =
            [succeededEntry ''https://pan.quark.cn/s/linkA'' demoData,
             failedEntry ''https://pan.quark.cn/s/linkB'' ''boom'',
             failedEntry ''https://pan.quark.cn/s/linkC'' ''no token'']) \<and>
   defaultCookie demoPanel () \<noteq> [] \<and>
   (\<exists>b'. fst (handleBatchTransfer demoPanel
                 [''https://pan.quark.cn/s/linkA'', ''https://pan.quark.cn/s/linkB'',
                  ''https://pan.quark.cn/s/linkC''] ()) = Inr (Some b')
        \<and> length (batchResults b') = 3
        \<and> successCount b' + failCount b' + skipCount b' = 3)"
proof -
  let ?A = "''https://pan.quark.cn/s/linkA''"
  let ?B = "''https://pan.quark.cn/s/linkB''"
  let ?C = "''https://pan.quark.cn/s/linkC''"
  have d: "delay demoPanel 1000 () = ()"
    by simp
  have k: "defaultCookie demoPanel () \<noteq> []"
    by (simp add: demoPanel_def)
  have b: "transferItemTry demoPanel ?B
             (if Succeeded \<noteq> Skipped then delay demoPanel 1000 () else ()) =
           (Inl (Exn ''Error'' ''boom''), ())"
    by (simp add: demo_B)
  note t = batch_transfer_outcomes [where p = demoPanel and totalLinks = 0 and i = 0
      and links = "[]" and b = emptyBatch and s = "()" and link = ?B
      and e = "Exn ''Error'' ''boom''" and ?s1.0 = "()"
      and linkA = ?A and ?t0.0 = "()" and ra = "succeededEntry ?A demoData"
      and ta = Succeeded and ?t1.0 = "()" and linkB = ?B and e' = "Exn ''Error'' ''boom''"
      and ?t2.0 = "()" and linkC = ?C and rc = "failedEntry ?C ''no token''" and tc = Failed
      and ?t3.0 = "()" and detectedLinks = "[?A, ?B, ?C]" and u = "()"]
  from t [THEN conjunct2, THEN conjunct1] demo_B have 1: "transferItem demoPanel ?B () =
      (Inr (failedEntry ?B ''boom'', Failed), ())"
    by (simp only: exn.sel simp_thms)
  from t [THEN conjunct2, THEN conjunct2, THEN conjunct1] demo_A b demo_C
  have 2: "\<exists>b3. batch_loop demoPanel 3 0 [?A, ?B, ?C] emptyBatch () = (Inr b3, ())
        \<and> batchResults b3 =
            [succeededEntry ?A demoData, failedEntry ?B ''boom'', failedEntry ?C ''no token'']"
    by (simp only: d exn.sel simp_thms)
  have n: "length [?A, ?B, ?C] = 3"
    by simp
  from t [THEN conjunct2, THEN conjunct2, THEN conjunct2] k
  obtain b' where "fst (handleBatchTransfer demoPanel [?A, ?B, ?C] ()) = Inr (Some b')"
    and "length (batchResults b') = length [?A, ?B, ?C]"
    and "successCount b' + failCount b' + skipCount b' = length [?A, ?B, ?C]"
    by blast
  then have 3: "\<exists>b'. fst (handleBatchTransfer demoPanel [?A, ?B, ?C] ()) = Inr (Some b')
        \<and> length (batchResults b') = 3
        \<and> successCount b' + failCount b' + skipCount b' = 3"
    unfolding n by blast
  from demo_B 1 2 k 3 show ?thesis by (simp only: simp_thms)
qed

end
